theory Spec2Isabelle
  imports Complex_Main "HOL-Library.Word"
begin

unbundle bit_operations_syntax

section \<open>Go run-time failures\<close>

text \<open>
  A Go operation that panics (a method called through a nil pointer or a nil interface,
  an index or a slice out of range, a failed type assertion) returns \<open>Inl\<close> of the
  panic in the model; a normal return is \<open>Inr\<close>.
\<close>

datatype panic = NilDereference | IndexOutOfRange | SliceOutOfRange | TypeAssertion

section \<open>keyfuns\_string.go: the generated names of the key functions\<close>

text \<open>
  \<open>KeyFuns_name\<close> and \<open>KeyFuns_index\<close> are the constants \<open>_KeyFuns_name\<close> and
  \<open>_KeyFuns_index\<close> of the source (an Isabelle name cannot start with an underscore).
  The entries of the index are \<open>uint16\<close> values; they are only read and compared, so they
  are kept as naturals. \<open>KeyFuns\<close> is a signed integer type; the codes are modelled as
  \<open>int\<close>.
\<close>

definition KeyFuns_name :: string where
  "KeyFuns_name = ''KeyFunNilKeyFunMoveUpKeyFunMoveDownKeyFunMoveRightKeyFunMoveLeftKeyFunPageUpKeyFunPageDownKeyFunPageRightKeyFunPageLeftKeyFunHomeKeyFunEndKeyFunDocHomeKeyFunDocEndKeyFunWordRightKeyFunWordLeftKeyFunFocusNextKeyFunFocusPrevKeyFunEnterKeyFunAcceptKeyFunCancelSelectKeyFunSelectModeKeyFunSelectAllKeyFunAbortKeyFunEditItemKeyFunCopyKeyFunCutKeyFunPasteKeyFunBackspaceKeyFunBackspaceWordKeyFunDeleteKeyFunDeleteWordKeyFunKillKeyFunDuplicateKeyFunUndoKeyFunRedoKeyFunInsertKeyFunInsertAfterKeyFunGoGiEditorKeyFunZoomOutKeyFunZoomInKeyFunPrefsKeyFunRefreshKeyFunRecenterKeyFunCompleteKeyFunSearchKeyFunFindKeyFunJumpKeyFunHistPrevKeyFunHistNextKeyFunsN''"

definition KeyFuns_index :: "nat list" where
  "KeyFuns_index = [0, 9, 21, 35, 50, 64, 76, 90, 105, 119, 129, 138, 151, 163, 178, 192, 207, 222, 233, 245, 263, 279, 294, 305, 319, 329, 338, 349, 364, 383, 395, 411, 421, 436, 446, 456, 468, 485, 501, 514, 526, 537, 550, 564, 578, 590, 600, 610, 624, 638, 646]"

text \<open>Go's \<open>xs[i]\<close> and \<open>s[lo:hi]\<close>: both panic out of range.\<close>

definition index_at :: "'a list \<Rightarrow> int \<Rightarrow> panic + 'a" where
  "index_at xs i = (if 0 \<le> i \<and> i < int (length xs) then Inr (xs ! nat i) else Inl IndexOutOfRange)"

definition slice :: "string \<Rightarrow> nat \<Rightarrow> nat \<Rightarrow> panic + string" where
  "slice s lo hi = (if lo \<le> hi \<and> hi \<le> length s then Inr (take (hi - lo) (drop lo s)) else Inl SliceOutOfRange)"

definition KeyFuns_slice :: "int \<Rightarrow> panic + string" where
  "KeyFuns_slice j =
     (case index_at KeyFuns_index j of Inl e \<Rightarrow> Inl e | Inr lo \<Rightarrow>
      (case index_at KeyFuns_index (j + 1) of Inl e \<Rightarrow> Inl e | Inr hi \<Rightarrow>
         slice KeyFuns_name lo hi))"

text \<open>\<open>strconv.FormatInt(i, 10)\<close>: the decimal digits, with a minus sign when negative.\<close>

fun digits10 :: "nat \<Rightarrow> string" where
  "digits10 n = (if n < 10 then [''0123456789'' ! n] else digits10 (n div 10) @ [''0123456789'' ! (n mod 10)])"

definition FormatInt10 :: "int \<Rightarrow> string" where
  "FormatInt10 i = (if i < 0 then CHR ''-'' # digits10 (nat (- i)) else digits10 (nat i))"

text \<open>\<open>func (i KeyFuns) String() string\<close>\<close>

definition String :: "int \<Rightarrow> panic + string" where
  "String i =
     (if i < 0 \<or> i \<ge> int (length KeyFuns_index) - 1
      then Inr (''KeyFuns('' @ FormatInt10 i @ '')'')
      else KeyFuns_slice i)"

text \<open>
  \<open>func (i *KeyFuns) FromString(s string) error\<close>: the loop over \<open>j\<close>, then the method.
  The method takes the receiver's old value and returns its new value with the error
  (\<open>None\<close> is Go's \<open>nil\<close> error).
\<close>

function FromString_loop :: "nat \<Rightarrow> string \<Rightarrow> panic + int option" where
  "FromString_loop j s =
     (if int j < int (length KeyFuns_index) - 1
      then (case KeyFuns_slice (int j) of
              Inl e \<Rightarrow> Inl e
            | Inr nm \<Rightarrow> if s = nm then Inr (Some (int j)) else FromString_loop (j + 1) s)
      else Inr None)"
  by pat_completeness auto
termination
  by (relation "measure (\<lambda>(j, s). length KeyFuns_index - j)") auto

declare FromString_loop.simps [simp del]

definition FromString :: "int \<Rightarrow> string \<Rightarrow> panic + (int \<times> string option)" where
  "FromString i s =
     (case FromString_loop 0 s of
        Inl e \<Rightarrow> Inl e
      | Inr (Some j) \<Rightarrow> Inr (j, None)
      | Inr None \<Rightarrow> Inr (i, Some (''String '' @ s @ '' is not a valid option for type KeyFuns'')))"

text \<open>
  Proof devices, not part of the source: the list of the fifty names, and the running
  offsets of a list of strings. The source's two tables are shown below to be the
  concatenation and the offsets of this list.
\<close>

definition KeyFuns_names :: "string list" where
  "KeyFuns_names =
   [''KeyFunNil'', ''KeyFunMoveUp'', ''KeyFunMoveDown'', ''KeyFunMoveRight'',
    ''KeyFunMoveLeft'', ''KeyFunPageUp'', ''KeyFunPageDown'', ''KeyFunPageRight'',
    ''KeyFunPageLeft'', ''KeyFunHome'', ''KeyFunEnd'', ''KeyFunDocHome'', ''KeyFunDocEnd'',
    ''KeyFunWordRight'', ''KeyFunWordLeft'', ''KeyFunFocusNext'', ''KeyFunFocusPrev'',
    ''KeyFunEnter'', ''KeyFunAccept'', ''KeyFunCancelSelect'', ''KeyFunSelectMode'',
    ''KeyFunSelectAll'', ''KeyFunAbort'', ''KeyFunEditItem'', ''KeyFunCopy'',
    ''KeyFunCut'', ''KeyFunPaste'', ''KeyFunBackspace'', ''KeyFunBackspaceWord'',
    ''KeyFunDelete'', ''KeyFunDeleteWord'', ''KeyFunKill'', ''KeyFunDuplicate'',
    ''KeyFunUndo'', ''KeyFunRedo'', ''KeyFunInsert'', ''KeyFunInsertAfter'',
    ''KeyFunGoGiEditor'', ''KeyFunZoomOut'', ''KeyFunZoomIn'', ''KeyFunPrefs'',
    ''KeyFunRefresh'', ''KeyFunRecenter'', ''KeyFunComplete'', ''KeyFunSearch'',
    ''KeyFunFind'', ''KeyFunJump'', ''KeyFunHistPrev'', ''KeyFunHistNext'', ''KeyFunsN'']"

fun offsets :: "nat \<Rightarrow> string list \<Rightarrow> nat list" where
  "offsets k [] = [k]"
| "offsets k (x # xs) = k # offsets (k + length x) xs"

section \<open>The Go packages \<open>image\<close>, \<open>image/color\<close> and \<open>image/draw\<close>, as far as viewport2d.go uses them\<close>

text \<open>
  \<open>image.Point\<close> and \<open>image.Rectangle\<close>. Go's \<open>int\<close> coordinates are modelled as
  unbounded integers: pixel coordinates stay far from the 64-bit range, and no claim
  below depends on overflow. The fields \<open>Min\<close> and \<open>Max\<close> of a rectangle are named
  \<open>Min_r\<close> and \<open>Max_r\<close>, the names \<open>Min\<close> and \<open>Max\<close> being taken in HOL.
\<close>

record Point =
  X :: int
  Y :: int

record Rectangle =
  Min_r :: Point
  Max_r :: Point

definition Pt :: "int \<Rightarrow> int \<Rightarrow> Point" where
  "Pt x y = \<lparr>X = x, Y = y\<rparr>"

definition ZP :: Point where
  "ZP = Pt 0 0"

definition ZR :: Rectangle where
  "ZR = \<lparr>Min_r = ZP, Max_r = ZP\<rparr>"

definition Point_Add :: "Point \<Rightarrow> Point \<Rightarrow> Point" where
  "Point_Add p q = Pt (X p + X q) (Y p + Y q)"

definition Point_Sub :: "Point \<Rightarrow> Point \<Rightarrow> Point" where
  "Point_Sub p q = Pt (X p - X q) (Y p - Y q)"

definition Point_In :: "Point \<Rightarrow> Rectangle \<Rightarrow> bool" where
  "Point_In p r =
     (X (Min_r r) \<le> X p \<and> X p < X (Max_r r) \<and> Y (Min_r r) \<le> Y p \<and> Y p < Y (Max_r r))"

definition Rect_Add :: "Rectangle \<Rightarrow> Point \<Rightarrow> Rectangle" where
  "Rect_Add r p = \<lparr>Min_r = Point_Add (Min_r r) p, Max_r = Point_Add (Max_r r) p\<rparr>"

definition Rect_Size :: "Rectangle \<Rightarrow> Point" where
  "Rect_Size r = Pt (X (Max_r r) - X (Min_r r)) (Y (Max_r r) - Y (Min_r r))"

definition Rect_Empty :: "Rectangle \<Rightarrow> bool" where
  "Rect_Empty r = (X (Min_r r) \<ge> X (Max_r r) \<or> Y (Min_r r) \<ge> Y (Max_r r))"

text \<open>
  \<open>Rectangle.Intersect\<close>: the larger of the minima and the smaller of the maxima, and
  the zero rectangle when that is empty.
\<close>

definition Rect_Intersect :: "Rectangle \<Rightarrow> Rectangle \<Rightarrow> Rectangle" where
  "Rect_Intersect r s =
     (let r1 = \<lparr>Min_r = Pt (max (X (Min_r r)) (X (Min_r s))) (max (Y (Min_r r)) (Y (Min_r s))),
                Max_r = Pt (min (X (Max_r r)) (X (Max_r s))) (min (Y (Max_r r)) (Y (Max_r s)))\<rparr>
      in if Rect_Empty r1 then ZR else r1)"

text \<open>
  \<open>color.RGBA\<close> (alpha-premultiplied, eight bits a channel) and \<open>image.RGBA\<close>. A pixel
  buffer carries the address \<open>addr\<close> of the Go object, so that two buffers of equal
  contents can still be told apart, its bounds \<open>Rect\<close>, and its pixels as a function of
  the coordinates (Go keeps them in a byte slice indexed through \<open>PixOffset\<close>); only the
  pixels inside \<open>Rect\<close> exist.
\<close>

record color_RGBA =
  cR :: "8 word"
  cG :: "8 word"
  cB :: "8 word"
  cA :: "8 word"

record image_RGBA =
  addr :: nat
  Rect :: Rectangle
  Pix :: "int \<Rightarrow> int \<Rightarrow> color_RGBA"

text \<open>
  \<open>draw.Over\<close> on two RGBA pixels, as \<open>image/draw\<close> computes it for an RGBA source
  over an RGBA destination: with \<open>m = 0xffff\<close> and \<open>a = (m - sa * 0x101) * 0x101\<close>, each
  channel becomes \<open>uint8((d * a / m + s * 0x101) >> 8)\<close>. The intermediate values fit
  32 bits, so the arithmetic is written on naturals; the final conversion to
  \<open>uint8\<close> truncates.
\<close>

definition over_channel :: "8 word \<Rightarrow> 8 word \<Rightarrow> 8 word \<Rightarrow> 8 word" where
  "over_channel d s sa =
     (let m = 65535; a = (m - unat sa * 257) * 257
      in of_nat ((unat d * a div m + unat s * 257) div 256))"

definition draw_Over :: "color_RGBA \<Rightarrow> color_RGBA \<Rightarrow> color_RGBA" where
  "draw_Over d s =
     \<lparr>cR = over_channel (cR d) (cR s) (cA s), cG = over_channel (cG d) (cG s) (cA s),
      cB = over_channel (cB d) (cB s) (cA s), cA = over_channel (cA d) (cA s) (cA s)\<rparr>"

text \<open>
  \<open>draw.Draw(dst, r, src, sp, draw.Over)\<close>. \<open>draw_clip\<close> is the package's \<open>clip\<close>:
  the rectangle is cut to the destination's bounds and to the source's bounds moved to
  the rectangle's origin, and the source point follows the cut of the top-left corner.
  Then every pixel of the cut rectangle is composed with the source pixel at the same
  offset from the source point. The destination and the source are two buffers.
\<close>

definition draw_clip :: "Rectangle \<Rightarrow> Rectangle \<Rightarrow> Rectangle \<Rightarrow> Point \<Rightarrow> Rectangle \<times> Point" where
  "draw_clip dstB r srcB sp =
     (let orig = Min_r r;
          r1 = Rect_Intersect r dstB;
          r2 = Rect_Intersect r1 (Rect_Add srcB (Point_Sub orig sp));
          dx = X (Min_r r2) - X orig;
          dy = Y (Min_r r2) - Y orig
      in if dx = 0 \<and> dy = 0 then (r2, sp) else (r2, Pt (X sp + dx) (Y sp + dy)))"

definition draw_Draw :: "image_RGBA \<Rightarrow> Rectangle \<Rightarrow> image_RGBA \<Rightarrow> Point \<Rightarrow> image_RGBA" where
  "draw_Draw dst r src sp =
     (case draw_clip (Rect dst) r (Rect src) sp of (r', sp') \<Rightarrow>
        if Rect_Empty r' then dst
        else dst\<lparr>Pix := \<lambda>x y.
               if Point_In (Pt x y) r'
               then draw_Over (Pix dst x y) (Pix src (x - X (Min_r r') + X sp') (y - Y (Min_r r') + Y sp'))
               else Pix dst x y\<rparr>)"

section \<open>viewport2d.go: the data\<close>

text \<open>
  Modelled from the spec: \<open>Vec2D\<close> (the type of \<open>LayData.AllocPos\<close> and
  \<open>LayData.AllocSize\<close>) and its methods are declared outside the files at hand. The spec
  (section 6) gives every node "a queryable allocated layout box": a position and a size,
  two coordinates each. The coordinates are \<open>float32\<close> in the source's package and are
  modelled as real numbers (finite values only). \<open>IsZero\<close> holds when both coordinates
  are zero; \<open>ToPoint\<close> converts as Go's \<open>int(f)\<close> does, towards zero; \<open>ToPointCeil\<close>
  rounds up.
\<close>

record Vec2D =
  X32 :: real
  Y32 :: real

definition trunc0 :: "real \<Rightarrow> int" where
  "trunc0 f = (if 0 \<le> f then \<lfloor>f\<rfloor> else \<lceil>f\<rceil>)"

definition Vec2D_IsZero :: "Vec2D \<Rightarrow> bool" where
  "Vec2D_IsZero a = (X32 a = 0 \<and> Y32 a = 0)"

definition Vec2D_ToPoint :: "Vec2D \<Rightarrow> Point" where
  "Vec2D_ToPoint a = Pt (trunc0 (X32 a)) (trunc0 (Y32 a))"

definition Vec2D_ToPointCeil :: "Vec2D \<Rightarrow> Point" where
  "Vec2D_ToPointCeil a = Pt \<lceil>X32 a\<rceil> \<lceil>Y32 a\<rceil>"

text \<open>
  Modelled from the spec: \<open>ViewBox2D\<close> and its method \<open>Bounds\<close> are declared outside
  the files at hand. The spec (section 3) describes the view box as a "position + size in
  the coordinate space of the parent viewport"; its bounds are the rectangle from the
  position to the position plus the size.
\<close>

record ViewBox2D =
  Min_vb :: Point
  Size_vb :: Point

definition ViewBox_Bounds :: "ViewBox2D \<Rightarrow> Rectangle" where
  "ViewBox_Bounds vb = \<lparr>Min_r = Min_vb vb, Max_r = Point_Add (Min_vb vb) (Size_vb vb)\<rparr>"

text \<open>
  Modelled from the spec: \<open>RenderState\<close> is declared outside the files at hand. The spec
  (sections 2 and 4.4) describes a paint context on the pixel surface with a stack of clip
  regions, one stack per surface: \<open>PushBounds\<close> saves the current bounds on the stack and
  installs the new ones, \<open>PopBounds\<close> restores the bounds saved last (and leaves an empty
  stack alone), and \<open>Init\<close> points the context at a pixel buffer.
\<close>

record RenderState =
  Image_rs :: "nat option"
  Bounds :: Rectangle
  BoundsStack :: "Rectangle list"

definition RenderState_Init :: "int \<Rightarrow> int \<Rightarrow> image_RGBA \<Rightarrow> RenderState \<Rightarrow> RenderState" where
  "RenderState_Init width height img rs = rs\<lparr>Image_rs := Some (addr img)\<rparr>"

definition RenderState_PushBounds :: "Rectangle \<Rightarrow> RenderState \<Rightarrow> RenderState" where
  "RenderState_PushBounds b rs = rs\<lparr>BoundsStack := BoundsStack rs @ [Bounds rs], Bounds := b\<rparr>"

definition RenderState_PopBounds :: "RenderState \<Rightarrow> RenderState" where
  "RenderState_PopBounds rs =
     (if BoundsStack rs = [] then rs
      else rs\<lparr>Bounds := last (BoundsStack rs), BoundsStack := butlast (BoundsStack rs)\<rparr>)"

text \<open>
  \<open>oswin.Image\<close>: the window system's image object, with the pixel buffer that its
  method \<open>RGBA()\<close> returns. \<open>None\<close> is the nil interface.
\<close>

record oswin_Image =
  os_id :: nat
  RGBA_of :: image_RGBA

text \<open>
  The tree parent \<open>vp.Par\<close> as \<open>DrawIntoParent\<close> sees it through \<open>KiToNode2D\<close>:
  either a node that is not a \<open>Node2D\<close> (the conversion gives nil), or a \<open>Node2D\<close> with
  the rectangle its \<open>ChildrenBBox2D()\<close> returns.
\<close>

datatype ParNode = ParNotNode2D | ParNode2D Rectangle

text \<open>
  \<open>Viewport2D\<close>, with the fields of the embedded \<open>Node2DBase\<close> that the file reads.
  The flag tests \<open>IsOverlay()\<close> and \<open>IsPopup()\<close> are bits of the node's flag word; the
  positions of the bits are declared outside the files at hand, so each tested flag is a
  boolean field (the spec, section 3, lists them as the viewport's flags).
  \<open>ParentWindow\<close> is what the method \<open>ParentWindow()\<close> finds. \<open>Viewport\<close> and \<open>Win\<close> are
  pointers: addresses of the parent viewport and of the window, \<open>None\<close> for nil. The
  pixel buffer is owned by its viewport alone and is kept in the record.
\<close>

record Viewport2D =
  IsOverlay :: bool
  IsPopup :: bool
  Par :: "ParNode option"
  Viewport :: "nat option"
  ParentWindow :: "nat option"
  AllocPos :: Vec2D
  AllocSize :: Vec2D
  VpBBox :: Rectangle
  WinBBox :: Rectangle
  Fill :: bool
  ViewBox :: ViewBox2D
  Render :: RenderState
  Pixels :: "image_RGBA option"
  OSImage :: "oswin_Image option"
  Win :: "nat option"

text \<open>
  What the code does to the world outside the viewports: lines written to the log and to
  the standard output, and calls of the window's methods (declared outside the files at
  hand), recorded in the order they happen. \<open>PathUnique\<close> is not at hand, so a printed
  line is recorded by its fixed text.
\<close>

datatype Event =
    LogPrintf string
  | FmtPrintf string
  | UpdateStart nat
  | UpdateEnd nat
  | UploadVp nat nat Point
  | UploadAllViewports nat

text \<open>
  The state: the viewports by address, the identifiers of the window-system images
  released so far, the events so far, and the global switch \<open>Render2DTrace\<close>.
\<close>

record World =
  vps :: "nat \<rightharpoonup> Viewport2D"
  released :: "nat list"
  trace :: "Event list"
  Render2DTrace :: bool

definition set_vp :: "nat \<Rightarrow> Viewport2D \<Rightarrow> World \<Rightarrow> World" where
  "set_vp a vp w = w\<lparr>vps := (vps w)(a \<mapsto> vp)\<rparr>"

definition emit :: "Event list \<Rightarrow> World \<Rightarrow> World" where
  "emit es w = w\<lparr>trace := trace w @ es\<rparr>"

definition bindP :: "panic + 'a \<Rightarrow> ('a \<Rightarrow> panic + 'b) \<Rightarrow> panic + 'b" where
  "bindP m f = (case m of Inl e \<Rightarrow> Inl e | Inr x \<Rightarrow> f x)"

text \<open>A field read through a pointer: a nil or dangling pointer panics.\<close>

definition deref :: "World \<Rightarrow> nat \<Rightarrow> panic + Viewport2D" where
  "deref w a = (case vps w a of None \<Rightarrow> Inl NilDereference | Some vp \<Rightarrow> Inr vp)"

section \<open>viewport2d.go: the operations\<close>

text \<open>
  \<open>func (vp *Viewport2D) Resize(nwsz image.Point)\<close>. The allocator
  \<open>oswin.TheApp.NewImage\<close> is not at hand and is a parameter: for a size it returns Go's
  pair of an image and an error.
\<close>

definition Resize ::
  "(Point \<Rightarrow> oswin_Image option \<times> string option) \<Rightarrow> nat \<Rightarrow> Point \<Rightarrow> World \<Rightarrow> panic + World" where
  "Resize NewImage a nwsz w =
     bindP (deref w a) (\<lambda>vp.
       if X nwsz = 0 \<or> Y nwsz = 0 then Inr w
       else if (case Pixels vp of None \<Rightarrow> False | Some px \<Rightarrow> Rect_Size (Rect px) = nwsz)
       then Inr (set_vp a (vp\<lparr>ViewBox := (ViewBox vp)\<lparr>Size_vb := nwsz\<rparr>\<rparr>) w)
       else
         let w1 = (case OSImage vp of None \<Rightarrow> w
                   | Some os \<Rightarrow> w\<lparr>released := released w @ [os_id os]\<rparr>)
         in (case NewImage nwsz of (img, err) \<Rightarrow>
              (case err of
                 Some e \<Rightarrow> Inr (emit [LogPrintf e] (set_vp a (vp\<lparr>OSImage := img\<rparr>) w1))
               | None \<Rightarrow>
                  (case img of
                     None \<Rightarrow> Inl NilDereference
                   | Some os \<Rightarrow>
                       Inr (set_vp a
                             (vp\<lparr>OSImage := img,
                                 Pixels := Some (RGBA_of os),
                                 Render := RenderState_Init (X nwsz) (Y nwsz) (RGBA_of os) (Render vp),
                                 ViewBox := (ViewBox vp)\<lparr>Size_vb := nwsz\<rparr>\<rparr>) w1)))))"

text \<open>\<open>func (vp *Viewport2D) SetCurWin()\<close>\<close>

definition SetCurWin :: "nat \<Rightarrow> World \<Rightarrow> panic + World" where
  "SetCurWin a w =
     bindP (deref w a) (\<lambda>vp.
       case ParentWindow vp of None \<Rightarrow> Inr w | Some pwin \<Rightarrow> Inr (set_vp a (vp\<lparr>Win := Some pwin\<rparr>) w))"

text \<open>\<open>func (vp *Viewport2D) UploadMainToWin()\<close> and \<open>UploadToWin()\<close>\<close>

definition UploadMainToWin :: "nat \<Rightarrow> World \<Rightarrow> panic + World" where
  "UploadMainToWin a w =
     bindP (deref w a) (\<lambda>vp.
       case Win vp of None \<Rightarrow> Inr w | Some win \<Rightarrow> Inr (emit [UploadAllViewports win] w))"

definition UploadToWin :: "nat \<Rightarrow> World \<Rightarrow> panic + World" where
  "UploadToWin a w =
     bindP (deref w a) (\<lambda>vp.
       case Win vp of None \<Rightarrow> Inr w
       | Some win \<Rightarrow> Inr (emit [UpdateStart win, UploadVp win a (Min_r (WinBBox vp)), UpdateEnd win] w))"

text \<open>
  The call \<open>draw.Draw(parVp.Pixels, r, vp.Pixels, sp, draw.Over)\<close> on the state: a nil
  parent viewport, a nil destination buffer or a nil source buffer panics.
\<close>

definition draw_into :: "nat option \<Rightarrow> Rectangle \<Rightarrow> image_RGBA option \<Rightarrow> Point \<Rightarrow> World \<Rightarrow> panic + World" where
  "draw_into parVp r src sp w =
     (case parVp of None \<Rightarrow> Inl NilDereference
      | Some pa \<Rightarrow>
          bindP (deref w pa) (\<lambda>par.
            case Pixels par of None \<Rightarrow> Inl NilDereference
            | Some dst \<Rightarrow>
                (case src of None \<Rightarrow> Inl NilDereference
                 | Some s \<Rightarrow> Inr (set_vp pa (par\<lparr>Pixels := Some (draw_Draw dst r s sp)\<rparr>) w))))"

text \<open>\<open>func (vp *Viewport2D) DrawIntoParent(parVp *Viewport2D)\<close>\<close>

definition DrawIntoParent :: "nat \<Rightarrow> nat option \<Rightarrow> World \<Rightarrow> panic + World" where
  "DrawIntoParent a parVp w =
     bindP (deref w a) (\<lambda>vp.
       if IsOverlay vp then
         (case parVp of None \<Rightarrow> Inr w
          | Some pa \<Rightarrow>
              (case Pixels vp of None \<Rightarrow> Inl NilDereference
               | Some px \<Rightarrow>
                   let r = Rect px;
                       pos = Vec2D_ToPoint (AllocPos vp);
                       r = Rect_Add r pos
                   in draw_into parVp r (Pixels vp) ZP w))
       else
         let r = ViewBox_Bounds (ViewBox vp);
             sp = ZP
         in bindP (case Par vp of
                     None \<Rightarrow> Inr (r, sp)
                   | Some ParNotNode2D \<Rightarrow> Inl NilDereference
                   | Some (ParNode2D cbb) \<Rightarrow>
                       let nr = Rect_Intersect r cbb
                       in Inr (nr, Point_Sub (Min_r nr) (Min_r r)))
              (\<lambda>(r, sp). draw_into parVp r (Pixels vp) sp w))"

text \<open>\<open>func (vp *Viewport2D) BBox2D() image.Rectangle\<close>\<close>

definition BBox2D ::
  "(Point \<Rightarrow> oswin_Image option \<times> string option) \<Rightarrow> nat \<Rightarrow> World \<Rightarrow> panic + Rectangle \<times> World" where
  "BBox2D NewImage a w =
     bindP (deref w a) (\<lambda>vp.
       bindP (if Pixels vp = None \<or> \<not> IsPopup vp then
                (if \<not> Vec2D_IsZero (AllocSize vp)
                 then Resize NewImage a (Vec2D_ToPointCeil (AllocSize vp)) w
                 else if Pixels vp = None then Resize NewImage a (Pt 64 64) w
                 else Inr w)
              else Inr w)
         (\<lambda>w1. bindP (deref w1 a) (\<lambda>vp1.
            case Pixels vp1 of None \<Rightarrow> Inl NilDereference
            | Some px \<Rightarrow> Inr (Rect px, w1))))"

text \<open>\<open>func (vp *Viewport2D) ChildrenBBox2D() image.Rectangle\<close>\<close>

definition ChildrenBBox2D :: "Viewport2D \<Rightarrow> Rectangle" where
  "ChildrenBBox2D vp = VpBBox vp"

text \<open>\<open>func (vp *Viewport2D) RenderViewport2D()\<close>\<close>

definition RenderViewport2D :: "nat \<Rightarrow> World \<Rightarrow> panic + World" where
  "RenderViewport2D a w =
     bindP (deref w a) (\<lambda>vp.
       if IsPopup vp then
         bindP (SetCurWin a w) (\<lambda>w1.
           UploadToWin a (if Render2DTrace w1 then emit [FmtPrintf ''Render: Popup UploadToWin''] w1 else w1))
       else if Viewport vp \<noteq> None then
         DrawIntoParent a (Viewport vp)
           (if Render2DTrace w then emit [FmtPrintf ''Render: DrawIntoParent''] w else w)
       else
         UploadMainToWin a
           (if Render2DTrace w then emit [FmtPrintf ''Render: UploadMainToWin''] w else w))"

text \<open>
  \<open>func (vp *Viewport2D) PushBounds() bool\<close> and \<open>PopBounds()\<close>. An overlay pushes on
  the render state of its parent viewport \<open>vp.Viewport\<close>; every other push, and every pop,
  is on the viewport's own render state.
\<close>

definition PushBounds :: "nat \<Rightarrow> World \<Rightarrow> panic + bool \<times> World" where
  "PushBounds a w =
     bindP (deref w a) (\<lambda>vp.
       if IsOverlay vp then
         (case Viewport vp of None \<Rightarrow> Inr (True, w)
          | Some pa \<Rightarrow>
              bindP (deref w pa) (\<lambda>par.
                case Pixels par of None \<Rightarrow> Inl NilDereference
                | Some px \<Rightarrow>
                    Inr (True, set_vp pa (par\<lparr>Render := RenderState_PushBounds (Rect px) (Render par)\<rparr>) w)))
       else if Rect_Empty (VpBBox vp) then Inr (False, w)
       else
         bindP (case Viewport vp of None \<Rightarrow> Inr False
                | Some pa \<Rightarrow>
                    bindP (deref w pa) (\<lambda>par.
                      Inr (Rect_Empty (Rect_Intersect (WinBBox vp) (WinBBox par)))))
           (\<lambda>offscreen.
              if offscreen then Inr (False, w)
              else
                let w1 = set_vp a (vp\<lparr>Render := RenderState_PushBounds (VpBBox vp) (Render vp)\<rparr>) w
                in Inr (True, if Render2DTrace w1 then emit [FmtPrintf ''Render:''] w1 else w1)))"

definition PopBounds :: "nat \<Rightarrow> World \<Rightarrow> panic + World" where
  "PopBounds a w =
     bindP (deref w a) (\<lambda>vp. Inr (set_vp a (vp\<lparr>Render := RenderState_PopBounds (Render vp)\<rparr>) w))"

text \<open>
  \<open>func (vp *Viewport2D) FillViewport()\<close> and \<open>Render2D()\<close>. The painter's \<open>FillBox\<close>
  and the walk over the children \<open>Render2DChildren\<close> are not at hand; they are parameters
  that take the viewport's address and the state.
\<close>

definition FillViewport :: "(nat \<Rightarrow> World \<Rightarrow> panic + World) \<Rightarrow> nat \<Rightarrow> World \<Rightarrow> panic + World" where
  "FillViewport FillBox a w = FillBox a w"

definition Render2D ::
  "(nat \<Rightarrow> World \<Rightarrow> panic + World) \<Rightarrow> (nat \<Rightarrow> World \<Rightarrow> panic + World) \<Rightarrow> nat \<Rightarrow> World \<Rightarrow> panic + World" where
  "Render2D FillBox Render2DChildren a w =
     bindP (PushBounds a w) (\<lambda>(ok, w1).
       if ok then
         bindP (deref w1 a) (\<lambda>vp.
           bindP (if Fill vp then FillViewport FillBox a w1 else Inr w1) (\<lambda>w2.
             bindP (Render2DChildren a w2) (\<lambda>w3.
               bindP (RenderViewport2D a w3) (\<lambda>w4.
                 PopBounds a w4))))
       else Inr w1)"

section \<open>viewport2d.go: signal handling\<close>

text \<open>
  The classifier \<open>SignalViewport2D\<close> changes nothing by itself: everything it does is a
  call of a method declared outside the files at hand (the render, layout and style passes
  of \<open>Node2DBase\<close>, the window's upload methods, the log and the standard output). These
  are parameters, gathered in one record over an arbitrary state \<open>'s\<close>; a node or a
  viewport is named by its address. \<open>Win_of\<close> reads the field \<open>vp.Win\<close> of a viewport in
  the current state. \<open>Update2DTrace\<close> is the global switch of that name.
  The calls of the profiler (\<open>prof.Start\<close>, \<open>pr.End\<close>) are left out.
\<close>

record 's Ext =
  FullRender2DTree :: "nat \<Rightarrow> 's \<Rightarrow> 's"
  Layout2DTree :: "nat \<Rightarrow> 's \<Rightarrow> 's"
  Render2DTree :: "nat \<Rightarrow> 's \<Rightarrow> 's"
  ReRender2DTree :: "nat \<Rightarrow> 's \<Rightarrow> 's"
  Style2DTree :: "nat \<Rightarrow> 's \<Rightarrow> 's"
  Win_of :: "nat \<Rightarrow> 's \<Rightarrow> nat option"
  Win_UpdateStart :: "nat \<Rightarrow> 's \<Rightarrow> bool \<times> 's"
  Win_UploadVpRegion :: "nat \<Rightarrow> nat \<Rightarrow> nat \<Rightarrow> 's \<Rightarrow> 's"
  Win_UpdateEnd :: "nat \<Rightarrow> bool \<Rightarrow> 's \<Rightarrow> 's"
  log_Printf :: "string \<Rightarrow> 's \<Rightarrow> 's"
  fmt_Printf :: "string \<Rightarrow> 's \<Rightarrow> 's"
  Update2DTrace :: bool

text \<open>
  A node as the classifier reads it, through the interface \<open>Node2D\<close> and the embedded
  \<open>Node2DBase\<close>: its address \<open>This\<close>, the three flag tests, what its method
  \<open>ReRender2D()\<close> returns (a node, \<open>None\<close> for nil, and the layout flag), what
  \<open>ParentReRenderAnchor()\<close> finds, and what \<open>AsViewport2D()\<close> returns (the viewport's
  address, \<open>None\<close> when the node is not a viewport). A \<open>ki.Ki\<close> is either such a node
  or something that is not a \<open>Node2D\<close>.
\<close>

record Node2D =
  This :: nat
  IsDeleted :: bool
  IsDestroyed :: bool
  IsUpdatingAtomic :: bool
  ReRender2D :: "nat option \<times> bool"
  ParentReRenderAnchor :: "nat option"
  AsViewport2D :: "nat option"

datatype Ki = KiOther | KiNode2D Node2D

text \<open>\<open>func (vp *Viewport2D) ReRender2D() (node Node2D, layout bool)\<close>\<close>

definition Viewport2D_ReRender2D :: "nat \<Rightarrow> nat option \<times> bool" where
  "Viewport2D_ReRender2D this = (Some this, False)"

text \<open>
  The payload \<open>data interface{}\<close> of a signal: an \<open>int64\<close> or anything else. The
  constants of the package \<open>ki\<close> that the classifier compares with are parameters.
  \<open>bitflag.HasMask\<close> tests whether any bit of the mask is set.
\<close>

datatype iface = IInt64 "64 word" | IOther

record KiConsts =
  NodeSignalUpdated :: "64 word"
  ValUpdateFlagsMask :: "64 word"
  StruUpdateFlagsMask :: "64 word"

definition bitflag_HasMask :: "64 word \<Rightarrow> 64 word \<Rightarrow> bool" where
  "bitflag_HasMask bits m = (bits AND m \<noteq> 0)"

text \<open>A line of trace output, printed only when \<open>Update2DTrace\<close> is set.\<close>

definition trace_Printf :: "'s Ext \<Rightarrow> string \<Rightarrow> 's \<Rightarrow> 's" where
  "trace_Printf ext msg s = (if Update2DTrace ext then fmt_Printf ext msg s else s)"

text \<open>
  \<open>func (vp *Viewport2D) ReRender2DNode(gni Node2D)\<close> and \<open>ReRender2DAnchor\<close>: the
  node is rendered (\<open>Render2DTree\<close>, for an anchor \<open>ReRender2DTree\<close>), and when the
  viewport has a window the node's region is uploaded.
\<close>

definition upload_region :: "'s Ext \<Rightarrow> nat \<Rightarrow> nat \<Rightarrow> 's \<Rightarrow> 's" where
  "upload_region ext vp gn s =
     (case Win_of ext vp s of
        None \<Rightarrow> s
      | Some win \<Rightarrow>
          (case Win_UpdateStart ext win s of (updt, s1) \<Rightarrow>
             Win_UpdateEnd ext win updt (Win_UploadVpRegion ext win vp gn s1)))"

definition ReRender2DNode :: "'s Ext \<Rightarrow> nat \<Rightarrow> nat \<Rightarrow> 's \<Rightarrow> 's" where
  "ReRender2DNode ext vp gn s = upload_region ext vp gn (Render2DTree ext gn s)"

definition ReRender2DAnchor :: "'s Ext \<Rightarrow> nat \<Rightarrow> nat \<Rightarrow> 's \<Rightarrow> 's" where
  "ReRender2DAnchor ext vp gn s = upload_region ext vp gn (ReRender2DTree ext gn s)"

text \<open>
  The handler that \<open>Init2D\<close> connects to the viewport's own signal. The receiver it is
  connected with is the viewport itself (\<open>vp.This\<close>), so the received \<open>rvp\<close> is the
  address of the viewport \<open>vp\<close> that \<open>Init2D\<close> ran on.
\<close>

definition Init2D_handler :: "'s Ext \<Rightarrow> Node2D \<Rightarrow> nat \<Rightarrow> 's \<Rightarrow> 's" where
  "Init2D_handler ext vp rvp s =
     (let s1 = trace_Printf ext ''Update: Viewport2D: full render due to signal'' s
      in if \<not> IsDeleted vp \<and> \<not> IsDestroyed vp then FullRender2DTree ext rvp s1 else s1)"

text \<open>
  \<open>func SignalViewport2D(vpki, send ki.Ki, sig int64, data interface{})\<close>. First the
  value of the local variable \<open>fullRend\<close>: it starts false, and the assertion
  \<open>data.(int64)\<close> panics on any other payload.
\<close>

definition fullRend_of :: "KiConsts \<Rightarrow> 64 word \<Rightarrow> iface \<Rightarrow> panic + bool" where
  "fullRend_of k sig data =
     (if sig = NodeSignalUpdated k then
        (case data of
           IOther \<Rightarrow> Inl TypeAssertion
         | IInt64 dflags \<Rightarrow>
             let vlupdt = bitflag_HasMask dflags (ValUpdateFlagsMask k);
                 strupdt = bitflag_HasMask dflags (StruUpdateFlagsMask k)
             in Inr (if vlupdt \<and> \<not> strupdt then False else if strupdt then True else False))
      else Inr True)"

definition SignalViewport2D ::
  "'s Ext \<Rightarrow> KiConsts \<Rightarrow> Ki \<Rightarrow> Ki \<Rightarrow> 64 word \<Rightarrow> iface \<Rightarrow> 's \<Rightarrow> panic + 's" where
  "SignalViewport2D ext k vpki send sig data s =
     (case vpki of
        KiOther \<Rightarrow> Inr s
      | KiNode2D vpgi \<Rightarrow>
          (case AsViewport2D vpgi of
             None \<Rightarrow> Inr s
           | Some vp \<Rightarrow>
               (case send of
                  KiOther \<Rightarrow> Inr s
                | KiNode2D gi \<Rightarrow>
                    if IsDeleted gi \<or> IsDestroyed gi then Inr s
                    else if IsUpdatingAtomic gi then
                      Inr (log_Printf ext ''ERROR SignalViewport2D updating node with Updating flag set'' s)
                    else
                      let s1 = trace_Printf ext ''Update: Viewport2D: rendering due to signal'' s
                      in bindP (fullRend_of k sig data) (\<lambda>fullRend.
                           if fullRend then
                             Inr (FullRender2DTree ext vp
                                   (trace_Printf ext ''Update: Viewport2D: FullRender2DTree (structural changes)'' s1))
                           else
                             (case ReRender2D gi of
                                (Some rr, layout) \<Rightarrow>
                                  let s2 = trace_Printf ext ''Update: Viewport2D: ReRender2D'' s1;
                                      s3 = (if layout then Layout2DTree ext rr s2 else s2)
                                  in Inr (ReRender2DNode ext vp rr s3)
                              | (None, layout) \<Rightarrow>
                                  (case ParentReRenderAnchor gi of
                                     Some anchor \<Rightarrow>
                                       let s2 = trace_Printf ext ''Update: Viewport2D: ReRender2D nil, found anchor'' s1
                                       in Inr (ReRender2DAnchor ext vp anchor (Style2DTree ext (This gi) s2))
                                   | None \<Rightarrow>
                                       let s2 = trace_Printf ext ''Update: Viewport2D: ReRender2D nil'' s1
                                       in Inr (ReRender2DTree ext vp (Style2DTree ext (This gi) s2))))))))"

section \<open>Concrete states for the instances below\<close>

text \<open>
  Two pixel patterns, a buffer with its origin at \<open>(0, 0)\<close>, a viewport with every field
  at its zero value, a state holding the listed viewports and nothing else, and two
  allocators: one that always succeeds and one that always fails.
\<close>

definition px_grad :: "int \<Rightarrow> int \<Rightarrow> color_RGBA" where
  "px_grad x y = \<lparr>cR = of_int x, cG = of_int y, cB = 0, cA = 255\<rparr>"

definition px_clear :: "int \<Rightarrow> int \<Rightarrow> color_RGBA" where
  "px_clear x y = \<lparr>cR = 0, cG = 0, cB = 0, cA = 0\<rparr>"

definition buffer :: "nat \<Rightarrow> int \<Rightarrow> int \<Rightarrow> (int \<Rightarrow> int \<Rightarrow> color_RGBA) \<Rightarrow> image_RGBA" where
  "buffer n wd ht f = \<lparr>addr = n, Rect = \<lparr>Min_r = ZP, Max_r = Pt wd ht\<rparr>, Pix = f\<rparr>"

definition vp_zero :: Viewport2D where
  "vp_zero =
     \<lparr>IsOverlay = False, IsPopup = False, Par = None, Viewport = None, ParentWindow = None,
      AllocPos = \<lparr>X32 = 0, Y32 = 0\<rparr>, AllocSize = \<lparr>X32 = 0, Y32 = 0\<rparr>,
      VpBBox = ZR, WinBBox = ZR, Fill = False,
      ViewBox = \<lparr>Min_vb = ZP, Size_vb = ZP\<rparr>,
      Render = \<lparr>Image_rs = None, Bounds = ZR, BoundsStack = []\<rparr>,
      Pixels = None, OSImage = None, Win = None\<rparr>"

definition world_of :: "(nat \<times> Viewport2D) list \<Rightarrow> World" where
  "world_of vs = \<lparr>vps = map_of vs, released = [], trace = [], Render2DTrace = False\<rparr>"

definition NewImage_ok :: "Point \<Rightarrow> oswin_Image option \<times> string option" where
  "NewImage_ok sz =
     (Some \<lparr>os_id = 42, RGBA_of = \<lparr>addr = 42, Rect = \<lparr>Min_r = ZP, Max_r = sz\<rparr>, Pix = px_clear\<rparr>\<rparr>, None)"

definition NewImage_fail :: "Point \<Rightarrow> oswin_Image option \<times> string option" where
  "NewImage_fail sz = (None, Some ''cannot allocate image'')"

text \<open>A viewport at address 1 that owns a 4 by 3 buffer, the buffer of the image 5.\<close>

definition vp_sized :: Viewport2D where
  "vp_sized =
     vp_zero\<lparr>Pixels := Some (buffer 5 4 3 px_grad),
             OSImage := Some \<lparr>os_id = 5, RGBA_of = buffer 5 4 3 px_grad\<rparr>,
             Render := \<lparr>Image_rs = Some 5, Bounds = ZR, BoundsStack = []\<rparr>,
             ViewBox := \<lparr>Min_vb = ZP, Size_vb = Pt 4 3\<rparr>\<rparr>"

text \<open>
  A viewport that has no buffer yet and whose allocated size is zero in one dimension
  only.
\<close>

definition vp_flat :: Viewport2D where
  "vp_flat = vp_zero\<lparr>AllocSize := \<lparr>X32 = 0, Y32 = 100\<rparr>\<rparr>"

text \<open>
  A parent viewport at address 0 with an 8 by 8 buffer, of which only the rectangle from
  \<open>(0, 0)\<close> to \<open>(4, 4)\<close> is its visible box, and at address 1 an overlay with a 4 by 4
  buffer allocated at \<open>(2.5, 2)\<close>: it reaches beyond the parent's visible box.
\<close>

definition rect4 :: "int \<Rightarrow> int \<Rightarrow> int \<Rightarrow> int \<Rightarrow> Rectangle" where
  "rect4 x0 y0 x1 y1 = \<lparr>Min_r = Pt x0 y0, Max_r = Pt x1 y1\<rparr>"

definition vp_parent :: Viewport2D where
  "vp_parent =
     vp_zero\<lparr>Pixels := Some (buffer 10 8 8 px_clear), VpBBox := rect4 0 0 4 4,
             WinBBox := rect4 0 0 4 4\<rparr>"

definition vp_overlay :: Viewport2D where
  "vp_overlay =
     vp_zero\<lparr>IsOverlay := True, Viewport := Some 0, Par := Some (ParNode2D (rect4 0 0 4 4)),
             AllocPos := \<lparr>X32 = 5 / 2, Y32 = 2\<rparr>,
             Pixels := Some (buffer 11 4 4 px_grad)\<rparr>"

text \<open>
  The same pair with the colours exchanged: a parent whose buffer is painted (opaque) and
  an overlay whose buffer is fully transparent.
\<close>

definition vp_parent_painted :: Viewport2D where
  "vp_parent_painted = vp_parent\<lparr>Pixels := Some (buffer 10 8 8 px_grad)\<rparr>"

definition vp_overlay_clear :: Viewport2D where
  "vp_overlay_clear = vp_overlay\<lparr>Pixels := Some (buffer 11 4 4 px_clear)\<rparr>"

text \<open>
  A nested viewport at address 1 with a 4 by 4 buffer and the view box from \<open>(2, 2)\<close> to
  \<open>(6, 6)\<close>, under a tree parent whose children box is the given rectangle.
\<close>

definition vp_nested :: "Rectangle \<Rightarrow> Viewport2D" where
  "vp_nested cbb =
     vp_zero\<lparr>Viewport := Some 0, Par := Some (ParNode2D cbb),
             ViewBox := \<lparr>Min_vb = Pt 2 2, Size_vb = Pt 4 4\<rparr>,
             VpBBox := rect4 0 0 4 4, WinBBox := rect4 2 2 6 6,
             Pixels := Some (buffer 11 4 4 px_grad)\<rparr>"

text \<open>
  The depth of the clip stack of the viewport at an address. A pass that does nothing
  (a viewport without children; a painter that is not called). The overlay above in the
  middle of a render pass: its own clip stack holds one saved rectangle.
\<close>

definition clip_depth :: "World \<Rightarrow> nat \<Rightarrow> nat option" where
  "clip_depth w a = map_option (\<lambda>vp. length (BoundsStack (Render vp))) (vps w a)"

definition no_pass :: "nat \<Rightarrow> World \<Rightarrow> panic + World" where
  "no_pass a w = Inr w"

definition vp_overlay_in_pass :: Viewport2D where
  "vp_overlay_in_pass =
     vp_overlay\<lparr>Render := \<lparr>Image_rs = Some 11, Bounds = rect4 0 0 4 4,
                            BoundsStack = [rect4 0 0 9 9]\<rparr>\<rparr>"

definition world_overlay_pass :: World where
  "world_overlay_pass = world_of [(0, vp_parent), (1, vp_overlay_in_pass)]"

section \<open>The five actions of the classifier, and a recording instance of its parameters\<close>

text \<open>
  The five actions that the spec (section 4.2) names. \<open>perform\<close> gives, for each action,
  the calls that the corresponding branch of \<open>SignalViewport2D\<close> makes; \<open>vp\<close> is the
  viewport, \<open>gi\<close> the emitting node. A node re-render carries the node to render and
  whether it is laid out first; an anchor re-render carries the anchor.
\<close>

datatype Action =
    Ignore
  | FullTree
  | NodeReRender nat bool
  | AnchorReRender nat
  | SubtreeReRender

fun perform :: "'s Ext \<Rightarrow> nat \<Rightarrow> Node2D \<Rightarrow> Action \<Rightarrow> 's \<Rightarrow> 's" where
  "perform ext vp gi Ignore s = s"
| "perform ext vp gi FullTree s =
     FullRender2DTree ext vp
       (trace_Printf ext ''Update: Viewport2D: FullRender2DTree (structural changes)'' s)"
| "perform ext vp gi (NodeReRender rr layout) s =
     (let s2 = trace_Printf ext ''Update: Viewport2D: ReRender2D'' s
      in ReRender2DNode ext vp rr (if layout then Layout2DTree ext rr s2 else s2))"
| "perform ext vp gi (AnchorReRender anchor) s =
     ReRender2DAnchor ext vp anchor
       (Style2DTree ext (This gi)
         (trace_Printf ext ''Update: Viewport2D: ReRender2D nil, found anchor'' s))"
| "perform ext vp gi SubtreeReRender s =
     ReRender2DTree ext vp
       (Style2DTree ext (This gi) (trace_Printf ext ''Update: Viewport2D: ReRender2D nil'' s))"

text \<open>
  The precedence that the code follows for a live node that is not updating: a full-tree
  re-render when the signal is not \<open>NodeSignalUpdated\<close> or a structure bit is set; else
  what \<open>ReRender2D()\<close> returns, with the layout it asks for; else the anchor; else the
  subtree.
\<close>

definition precedence :: "KiConsts \<Rightarrow> Node2D \<Rightarrow> 64 word \<Rightarrow> 64 word \<Rightarrow> Action" where
  "precedence k gi sig dflags =
     (if sig = NodeSignalUpdated k \<and> \<not> bitflag_HasMask dflags (StruUpdateFlagsMask k)
      then (case ReRender2D gi of
              (Some rr, layout) \<Rightarrow> NodeReRender rr layout
            | (None, layout) \<Rightarrow>
                (case ParentReRenderAnchor gi of
                   Some anchor \<Rightarrow> AnchorReRender anchor
                 | None \<Rightarrow> SubtreeReRender))
      else FullTree)"

text \<open>
  The precedence in the words of claim C2, for a live node that is not updating: a
  full-tree re-render when a structure bit is set or the signal is not a
  \<open>NodeSignalUpdated\<close> value change; else a node re-render without layout when
  \<open>ReRender2D()\<close> returns a node; else the anchor; else the subtree.
\<close>

definition claimed_precedence :: "KiConsts \<Rightarrow> Node2D \<Rightarrow> 64 word \<Rightarrow> 64 word \<Rightarrow> Action" where
  "claimed_precedence k gi sig dflags =
     (if sig = NodeSignalUpdated k \<and> bitflag_HasMask dflags (ValUpdateFlagsMask k) \<and>
         \<not> bitflag_HasMask dflags (StruUpdateFlagsMask k)
      then (case ReRender2D gi of
              (Some rr, layout) \<Rightarrow> NodeReRender rr False
            | (None, layout) \<Rightarrow>
                (case ParentReRenderAnchor gi of
                   Some anchor \<Rightarrow> AnchorReRender anchor
                 | None \<Rightarrow> SubtreeReRender))
      else FullTree)"

text \<open>
  An instance of the parameters that records every call in a list, in order. Every
  viewport has the window 9.
\<close>

datatype Call =
    Call_FullRender2DTree nat
  | Call_Layout2DTree nat
  | Call_Render2DTree nat
  | Call_ReRender2DTree nat
  | Call_Style2DTree nat
  | Call_UpdateStart nat
  | Call_UploadVpRegion nat nat nat
  | Call_UpdateEnd nat
  | Call_log_Printf string
  | Call_fmt_Printf string

definition recording :: "bool \<Rightarrow> Call list Ext" where
  "recording tr =
     \<lparr>FullRender2DTree = (\<lambda>n s. s @ [Call_FullRender2DTree n]),
      Layout2DTree = (\<lambda>n s. s @ [Call_Layout2DTree n]),
      Render2DTree = (\<lambda>n s. s @ [Call_Render2DTree n]),
      ReRender2DTree = (\<lambda>n s. s @ [Call_ReRender2DTree n]),
      Style2DTree = (\<lambda>n s. s @ [Call_Style2DTree n]),
      Win_of = (\<lambda>vp s. Some 9),
      Win_UpdateStart = (\<lambda>win s. (True, s @ [Call_UpdateStart win])),
      Win_UploadVpRegion = (\<lambda>win vp gn s. s @ [Call_UploadVpRegion win vp gn]),
      Win_UpdateEnd = (\<lambda>win updt s. s @ [Call_UpdateEnd win]),
      log_Printf = (\<lambda>msg s. s @ [Call_log_Printf msg]),
      fmt_Printf = (\<lambda>msg s. s @ [Call_fmt_Printf msg]),
      Update2DTrace = tr\<rparr>"

text \<open>
  Constants of the package \<open>ki\<close> for the instances (the signal \<open>NodeSignalUpdated\<close> is
  1; the value bits are bits 12 and 13, the structure bits are bits 3 to 6 and 8 to 11); a
  live
  widget at address 5 with the given answers of \<open>ReRender2D()\<close> and
  \<open>ParentReRenderAnchor()\<close>; and the viewport at address 0 as a node.
\<close>

definition ki_consts :: KiConsts where
  "ki_consts = \<lparr>NodeSignalUpdated = 1, ValUpdateFlagsMask = 0x3000, StruUpdateFlagsMask = 0xF78\<rparr>"

definition widget :: "nat option \<times> bool \<Rightarrow> nat option \<Rightarrow> Node2D" where
  "widget rr anchor =
     \<lparr>This = 5, IsDeleted = False, IsDestroyed = False, IsUpdatingAtomic = False,
      ReRender2D = rr, ParentReRenderAnchor = anchor, AsViewport2D = None\<rparr>"

definition vp_node :: Node2D where
  "vp_node =
     \<lparr>This = 0, IsDeleted = False, IsDestroyed = False, IsUpdatingAtomic = False,
      ReRender2D = Viewport2D_ReRender2D 0, ParentReRenderAnchor = None, AsViewport2D = Some 0\<rparr>"

section \<open>Theorems: Resize and BBox2D\<close>

lemma bindP_simps [simp]: "bindP (Inl e) f = Inl e" "bindP (Inr x) f = f x"
  by (simp_all add: bindP_def)

lemma deref_Some: "vps w a = Some vp \<Longrightarrow> deref w a = Inr vp"
  by (simp add: deref_def)

text \<open>
  Claim C7. When the viewport has a pixel buffer and \<open>Resize\<close> is called with that
  buffer's size, the call returns normally, the viewport still holds the very same
  buffer (same object, same bounds, same pixels), the same window-system image and the
  same render state; nothing is released, nothing is logged and the allocator is not
  consulted (the result does not depend on \<open>NewImage\<close>). Only the viewport at the
  address \<open>a\<close> can differ, and only in the size of its view box.
\<close>

theorem Resize_same_size_noop:
  assumes "vps w a = Some vp" and "Pixels vp = Some px" and "nwsz = Rect_Size (Rect px)"
  shows "\<exists>w' vp'. Resize NewImage a nwsz w = Inr w' \<and> vps w' = (vps w)(a \<mapsto> vp') \<and>
           released w' = released w \<and> trace w' = trace w \<and>
           Pixels vp' = Some px \<and> OSImage vp' = OSImage vp \<and> Render vp' = Render vp"
proof (cases "X nwsz = 0 \<or> Y nwsz = 0")
  case True
  have "vps w = (vps w)(a \<mapsto> vp)"
    using assms(1) by (simp add: map_upd_triv)
  with True assms show ?thesis
    by (intro exI [of _ w] exI [of _ vp]) (simp add: Resize_def deref_Some)
next
  case False
  let ?vp' = "vp\<lparr>ViewBox := (ViewBox vp)\<lparr>Size_vb := nwsz\<rparr>\<rparr>"
  from False assms show ?thesis
    by (intro exI [of _ "set_vp a ?vp' w"] exI [of _ ?vp'])
       (simp add: Resize_def deref_Some set_vp_def)
qed

theorem Resize_same_size_noop_witness:
  "vps (world_of [(1, vp_sized)]) 1 = Some vp_sized \<and>
   Pixels vp_sized = Some (buffer 5 4 3 px_grad) \<and>
   Pt 4 3 = Rect_Size (Rect (buffer 5 4 3 px_grad)) \<and>
   (\<exists>w' vp'. Resize NewImage_fail 1 (Pt 4 3) (world_of [(1, vp_sized)]) = Inr w' \<and>
      vps w' = (vps (world_of [(1, vp_sized)]))(1 \<mapsto> vp') \<and>
      released w' = [] \<and> trace w' = [] \<and>
      Pixels vp' = Some (buffer 5 4 3 px_grad) \<and>
      OSImage vp' = Some \<lparr>os_id = 5, RGBA_of = buffer 5 4 3 px_grad\<rparr> \<and>
      Render vp' = \<lparr>Image_rs = Some 5, Bounds = ZR, BoundsStack = []\<rparr>)"
proof -
  have a: "vps (world_of [(1, vp_sized)]) 1 = Some vp_sized"
    by (simp add: world_of_def)
  have b: "Pixels vp_sized = Some (buffer 5 4 3 px_grad)"
    by (simp add: vp_sized_def)
  have c: "Pt 4 3 = Rect_Size (Rect (buffer 5 4 3 px_grad))"
    by (simp add: buffer_def Rect_Size_def Pt_def ZP_def)
  have d: "released (world_of [(1, vp_sized)]) = []" "trace (world_of [(1, vp_sized)]) = []"
    by (simp_all add: world_of_def)
  have e: "OSImage vp_sized = Some \<lparr>os_id = 5, RGBA_of = buffer 5 4 3 px_grad\<rparr>"
     "Render vp_sized = \<lparr>Image_rs = Some 5, Bounds = ZR, BoundsStack = []\<rparr>"
    by (simp_all add: vp_sized_def)
  from Resize_same_size_noop [OF a b c, of NewImage_fail] show ?thesis
    unfolding d e using a b c by blast
qed

text \<open>
  Claim C8, as amended. When the requested size is non-zero and differs from the current
  buffer's and the allocator returns an error, \<open>Resize\<close> logs the error and leaves the
  fields \<open>Pixels\<close>, \<open>Render\<close> and \<open>ViewBox\<close> of the viewport as they were; but the
  previous window-system image has been released before the allocation was tried, and the
  field \<open>OSImage\<close> now holds what the allocator returned with its error.
\<close>

theorem Resize_allocation_failure:
  assumes "vps w a = Some vp" and "X nwsz \<noteq> 0" and "Y nwsz \<noteq> 0"
    and "Pixels vp = None \<or> (\<exists>px. Pixels vp = Some px \<and> Rect_Size (Rect px) \<noteq> nwsz)"
    and "NewImage nwsz = (img, Some e)"
  shows "Resize NewImage a nwsz w =
           Inr (w\<lparr>vps := (vps w)(a \<mapsto> vp\<lparr>OSImage := img\<rparr>),
                  released := released w @ (case OSImage vp of None \<Rightarrow> [] | Some os \<Rightarrow> [os_id os]),
                  trace := trace w @ [LogPrintf e]\<rparr>)"
  using assms
  by (auto simp add: Resize_def deref_Some set_vp_def emit_def split: option.splits)

text \<open>
  Claim C8 as stated fails: the viewport at address 1 owns the image 5; a failed
  allocation of an 8 by 8 buffer leaves it with no window-system image, and the image 5
  released.
\<close>

theorem Resize_failure_releases_image:
  "Resize NewImage_fail 1 (Pt 8 8) (world_of [(1, vp_sized)]) =
     Inr \<lparr>vps = [1 \<mapsto> vp_sized\<lparr>OSImage := None\<rparr>], released = [5],
          trace = [LogPrintf ''cannot allocate image''], Render2DTrace = False\<rparr> \<and>
   OSImage vp_sized = Some \<lparr>os_id = 5, RGBA_of = buffer 5 4 3 px_grad\<rparr> \<and>
   released (world_of [(1, vp_sized)]) = []"
  by (simp add: Resize_def deref_def set_vp_def emit_def world_of_def vp_sized_def
      NewImage_fail_def Pt_def buffer_def Rect_Size_def ZP_def)

theorem Resize_allocation_failure_witness:
  "vps (world_of [(1, vp_sized)]) 1 = Some vp_sized \<and> X (Pt 8 8) \<noteq> 0 \<and> Y (Pt 8 8) \<noteq> 0 \<and>
   (Pixels vp_sized = None \<or>
      (\<exists>px. Pixels vp_sized = Some px \<and> Rect_Size (Rect px) \<noteq> Pt 8 8)) \<and>
   NewImage_fail (Pt 8 8) = (None, Some ''cannot allocate image'') \<and>
   Resize NewImage_fail 1 (Pt 8 8) (world_of [(1, vp_sized)]) =
     Inr ((world_of [(1, vp_sized)])\<lparr>vps := (vps (world_of [(1, vp_sized)]))(1 \<mapsto> vp_sized\<lparr>OSImage := None\<rparr>),
            released := released (world_of [(1, vp_sized)]) @ [5],
            trace := trace (world_of [(1, vp_sized)]) @ [LogPrintf ''cannot allocate image'']\<rparr>)"
proof -
  have a: "vps (world_of [(1, vp_sized)]) 1 = Some vp_sized"
    by (simp add: world_of_def)
  have b: "X (Pt 8 8) \<noteq> 0" "Y (Pt 8 8) \<noteq> 0"
    by (simp_all add: Pt_def)
  have c: "Pixels vp_sized = None \<or>
      (\<exists>px. Pixels vp_sized = Some px \<and> Rect_Size (Rect px) \<noteq> Pt 8 8)"
    by (simp add: vp_sized_def buffer_def Rect_Size_def Pt_def ZP_def)
  have d: "NewImage_fail (Pt 8 8) = (None, Some ''cannot allocate image'')"
    by (simp add: NewImage_fail_def)
  have e: "OSImage vp_sized = Some \<lparr>os_id = 5, RGBA_of = buffer 5 4 3 px_grad\<rparr>"
    by (simp add: vp_sized_def)
  have "Resize NewImage_fail 1 (Pt 8 8) (world_of [(1, vp_sized)]) =
     Inr ((world_of [(1, vp_sized)])\<lparr>vps := (vps (world_of [(1, vp_sized)]))(1 \<mapsto> vp_sized\<lparr>OSImage := None\<rparr>),
            released := released (world_of [(1, vp_sized)]) @
              (case OSImage vp_sized of None \<Rightarrow> [] | Some os \<Rightarrow> [os_id os]),
            trace := trace (world_of [(1, vp_sized)]) @ [LogPrintf ''cannot allocate image'']\<rparr>)"
    by (rule Resize_allocation_failure [where vp = vp_sized and img = None]) (fact a b c d)+
  then show ?thesis
    using a b c d by (simp add: e)
qed

text \<open>
  Claim C9 at a failing input: a viewport without a buffer whose allocated size is
  \<open>(0, 100)\<close>. The size is not zero (one coordinate is not), so \<open>BBox2D\<close> asks \<open>Resize\<close> for a buffer of
  0 by 100 pixels; \<open>Resize\<close> returns at once on a zero dimension, the buffer is still
  nil, and \<open>vp.Pixels.Bounds()\<close> dereferences it. This happens with any allocator.
\<close>

theorem BBox2D_one_zero_dimension_panics:
  "BBox2D NewImage 1 (world_of [(1, vp_flat)]) = Inl NilDereference"
  by (simp add: BBox2D_def Resize_def deref_def world_of_def vp_flat_def vp_zero_def
      Vec2D_IsZero_def Vec2D_ToPointCeil_def Pt_def)

text \<open>
  More generally: whenever there is no buffer yet and the allocated size is not zero but
  rounds up to a size with a zero dimension, \<open>Resize\<close> returns without a buffer and
  \<open>BBox2D\<close> dereferences nil.
\<close>

lemma BBox2D_zero_dimension_panics:
  assumes "vps w a = Some vp" and "Pixels vp = None" and "\<not> Vec2D_IsZero (AllocSize vp)"
    and "X (Vec2D_ToPointCeil (AllocSize vp)) = 0 \<or> Y (Vec2D_ToPointCeil (AllocSize vp)) = 0"
  shows "BBox2D NewImage a w = Inl NilDereference"
  using assms by (auto simp add: BBox2D_def Resize_def deref_def)

text \<open>
  The case the source provides for: no buffer yet and an allocated size of zero in both
  dimensions. \<open>BBox2D\<close> asks the allocator for 64 by 64 pixels and, when it succeeds,
  returns the bounds of the buffer it got.
\<close>

lemma BBox2D_zero_size_fresh:
  assumes "vps w a = Some vp" and "Pixels vp = None" and "Vec2D_IsZero (AllocSize vp)"
    and "NewImage (Pt 64 64) = (Some os, None)"
  shows "\<exists>w' vp'. BBox2D NewImage a w = Inr (Rect (RGBA_of os), w') \<and>
           vps w' a = Some vp' \<and> Pixels vp' = Some (RGBA_of os)"
  using assms
  by (simp add: BBox2D_def Resize_def deref_def set_vp_def Pt_def split: option.splits)

section \<open>Theorems: compositing into the parent (DrawIntoParent)\<close>

text \<open>
  A point lies in an intersection exactly when it lies in both rectangles; an empty
  rectangle holds no point. Then \<open>draw.Draw\<close>, pixel by pixel: the destination keeps
  its address and bounds, and the pixel at \<open>(x, y)\<close> is composed with the source pixel
  at the same offset from the source point exactly when \<open>(x, y)\<close> lies in the rectangle,
  in the destination's bounds and where the source has a pixel for it.
\<close>

lemma Point_In_Intersect:
  "Point_In p (Rect_Intersect r s) \<longleftrightarrow> Point_In p r \<and> Point_In p s"
  by (auto simp add: Point_In_def Rect_Intersect_def Rect_Empty_def Let_def ZR_def ZP_def Pt_def)

lemma Rect_Empty_no_point: "Rect_Empty r \<Longrightarrow> \<not> Point_In p r"
  by (auto simp add: Point_In_def Rect_Empty_def)

lemma Rect_Empty_Intersect_ZR: "Rect_Empty (Rect_Intersect r s) \<longleftrightarrow> Rect_Intersect r s = ZR"
  by (auto simp add: Rect_Intersect_def Rect_Empty_def Let_def ZR_def ZP_def Pt_def)

lemma draw_clip_eq:
  assumes "draw_clip dstB r srcB sp = (r', sp')"
  shows "r' = Rect_Intersect (Rect_Intersect r dstB) (Rect_Add srcB (Point_Sub (Min_r r) sp))"
    and "X sp' = X sp + (X (Min_r r') - X (Min_r r))"
    and "Y sp' = Y sp + (Y (Min_r r') - Y (Min_r r))"
  using assms by (auto simp add: draw_clip_def Let_def Pt_def split: if_splits)

lemma draw_Draw_frame: "addr (draw_Draw dst r src sp) = addr dst" "Rect (draw_Draw dst r src sp) = Rect dst"
  by (simp_all add: draw_Draw_def split: prod.splits)

lemma draw_Draw_Pix:
  "Pix (draw_Draw dst r src sp) x y =
     (if Point_In (Pt x y) r \<and> Point_In (Pt x y) (Rect dst) \<and>
         Point_In (Pt x y) (Rect_Add (Rect src) (Point_Sub (Min_r r) sp))
      then draw_Over (Pix dst x y) (Pix src (x - X (Min_r r) + X sp) (y - Y (Min_r r) + Y sp))
      else Pix dst x y)"
proof -
  define inside where "inside \<longleftrightarrow>
      Point_In (Pt x y) r \<and> Point_In (Pt x y) (Rect dst) \<and>
      Point_In (Pt x y) (Rect_Add (Rect src) (Point_Sub (Min_r r) sp))"
  obtain r' sp' where c: "draw_clip (Rect dst) r (Rect src) sp = (r', sp')"
    by (cases "draw_clip (Rect dst) r (Rect src) sp")
  note e = draw_clip_eq [OF c]
  have in_r': "Point_In (Pt x y) r' \<longleftrightarrow> inside"
    by (simp add: e(1) Point_In_Intersect inside_def)
  have sx: "x - X (Min_r r') + X sp' = x - X (Min_r r) + X sp"
    and sy: "y - Y (Min_r r') + Y sp' = y - Y (Min_r r) + Y sp"
    using e(2,3) by simp_all
  have "Pix (draw_Draw dst r src sp) x y =
     (if inside
      then draw_Over (Pix dst x y) (Pix src (x - X (Min_r r) + X sp) (y - Y (Min_r r) + Y sp))
      else Pix dst x y)"
  proof (cases "Rect_Empty r'")
    case True
    then have "\<not> inside"
      using in_r' by (simp add: Rect_Empty_no_point)
    with True c show ?thesis by (simp add: draw_Draw_def)
  next
    case False
    with c show ?thesis
      by (simp add: draw_Draw_def sx sy in_r')
  qed
  then show ?thesis by (simp only: inside_def)
qed

lemma draw_Draw_empty: "Rect_Empty r \<Longrightarrow> draw_Draw dst r src sp = dst"
proof -
  assume emp: "Rect_Empty r"
  obtain r' sp' where c: "draw_clip (Rect dst) r (Rect src) sp = (r', sp')"
    by (cases "draw_clip (Rect dst) r (Rect src) sp")
  have "\<not> Point_In (Min_r r') r'"
    using emp unfolding draw_clip_eq(1) [OF c] Point_In_Intersect
    by (simp add: Rect_Empty_no_point)
  then have "Rect_Empty r'"
    by (auto simp add: Point_In_def Rect_Empty_def)
  with c show ?thesis by (simp add: draw_Draw_def)
qed


text \<open>
  \<open>draw.Over\<close> on the two kinds of pixel that settle what is seen: an opaque source
  pixel (alpha 255) replaces the destination's, and a fully transparent one (all four
  channels zero) leaves the destination's as it was.
\<close>

lemma unat8_scale: "unat (s :: 8 word) * 257 div 256 = unat s"
proof -
  have "unat s < 2 ^ LENGTH(8)" by (rule unsigned_less)
  then have "unat s < 256" by simp
  then show ?thesis by simp
qed

lemma over_channel_opaque: "over_channel d s 255 = s"
  by (simp add: over_channel_def Let_def unat8_scale)

lemma over_channel_clear: "over_channel d 0 0 = d"
proof -
  have "unat d * 16842495 div 65535 = unat d * 257"
    by simp
  then show ?thesis
    by (simp add: over_channel_def Let_def unat8_scale)
qed

lemma draw_Over_opaque: "cA s = 255 \<Longrightarrow> draw_Over d s = s"
  by (simp add: draw_Over_def over_channel_opaque)

lemma draw_Over_clear: "draw_Over d \<lparr>cR = 0, cG = 0, cB = 0, cA = 0\<rparr> = d"
  by (simp add: draw_Over_def over_channel_clear)

lemma draw_Over_cases:
  "draw_Over d s =
     (if cA s = 255 then s
      else if s = \<lparr>cR = 0, cG = 0, cB = 0, cA = 0\<rparr> then d
      else draw_Over d s)"
  by (simp add: draw_Over_opaque draw_Over_clear)

text \<open>
  Claim C4, as amended. For an overlay viewport (whose buffer has its origin at
  \<open>(0, 0)\<close>, as every viewport's has) and a non-nil parent viewport, \<open>DrawIntoParent\<close>
  returns normally and changes the parent's buffer only. Every pixel of the parent's
  buffer that lies under the overlay's buffer placed at the allocated position is
  composed (\<open>draw.Over\<close>) with the overlay's pixel there: it becomes the overlay's pixel
  where that is opaque, stays what it was where that is fully transparent, and is their
  composite otherwise. Every other pixel keeps its colour. No clip rectangle enters:
  neither the parent's \<open>VpBBox\<close> or \<open>WinBBox\<close> nor the children box of the tree parent
  appears in the result. What falls outside the parent's buffer is not drawn.
\<close>

theorem DrawIntoParent_overlay_unclipped:
  assumes "vps w a = Some vp" and "IsOverlay vp" and "vps w pa = Some par"
    and "Pixels vp = Some src" and "Pixels par = Some dst" and "Min_r (Rect src) = ZP"
  shows "\<exists>dst'. DrawIntoParent a (Some pa) w = Inr (w\<lparr>vps := (vps w)(pa \<mapsto> par\<lparr>Pixels := Some dst'\<rparr>)\<rparr>) \<and>
           addr dst' = addr dst \<and> Rect dst' = Rect dst \<and>
           (\<forall>x y. Pix dst' x y =
              (if Point_In (Pt x y) (Rect dst) \<and>
                  Point_In (Pt x y) (Rect_Add (Rect src) (Vec2D_ToPoint (AllocPos vp)))
               then (if cA (Pix src (x - X (Vec2D_ToPoint (AllocPos vp))) (y - Y (Vec2D_ToPoint (AllocPos vp)))) = 255
                     then Pix src (x - X (Vec2D_ToPoint (AllocPos vp))) (y - Y (Vec2D_ToPoint (AllocPos vp)))
                     else if Pix src (x - X (Vec2D_ToPoint (AllocPos vp))) (y - Y (Vec2D_ToPoint (AllocPos vp))) =
                             \<lparr>cR = 0, cG = 0, cB = 0, cA = 0\<rparr>
                     then Pix dst x y
                     else draw_Over (Pix dst x y)
                            (Pix src (x - X (Vec2D_ToPoint (AllocPos vp))) (y - Y (Vec2D_ToPoint (AllocPos vp)))))
               else Pix dst x y))"
proof -
  define pos where "pos = Vec2D_ToPoint (AllocPos vp)"
  define r where "r = Rect_Add (Rect src) pos"
  define dst' where "dst' = draw_Draw dst r src ZP"
  have run: "DrawIntoParent a (Some pa) w = Inr (w\<lparr>vps := (vps w)(pa \<mapsto> par\<lparr>Pixels := Some dst'\<rparr>)\<rparr>)"
    using assms(1-5)
    by (simp add: DrawIntoParent_def draw_into_def deref_Some set_vp_def dst'_def r_def pos_def)
  have rmin: "X (Min_r r) = X pos" "Y (Min_r r) = Y pos"
    using assms(6) by (simp_all add: r_def Rect_Add_def Point_Add_def Pt_def ZP_def)
  have shift: "Rect_Add (Rect src) (Point_Sub (Min_r r) ZP) = r"
    using assms(6) by (simp add: r_def Rect_Add_def Point_Add_def Point_Sub_def Pt_def ZP_def)
  have pix0: "Pix dst' x y =
      (if Point_In (Pt x y) (Rect dst) \<and> Point_In (Pt x y) r
       then draw_Over (Pix dst x y) (Pix src (x - X pos) (y - Y pos))
       else Pix dst x y)" for x y
    unfolding dst'_def draw_Draw_Pix shift rmin by (auto simp add: ZP_def Pt_def)
  have pix: "Pix dst' x y =
      (if Point_In (Pt x y) (Rect dst) \<and> Point_In (Pt x y) r
       then (if cA (Pix src (x - X pos) (y - Y pos)) = 255 then Pix src (x - X pos) (y - Y pos)
             else if Pix src (x - X pos) (y - Y pos) = \<lparr>cR = 0, cG = 0, cB = 0, cA = 0\<rparr>
             then Pix dst x y
             else draw_Over (Pix dst x y) (Pix src (x - X pos) (y - Y pos)))
       else Pix dst x y)" for x y
    unfolding pix0 [of x y] by (simp add: draw_Over_opaque draw_Over_clear)
  show ?thesis
    using run pix by (intro exI [of _ dst']) (simp add: dst'_def draw_Draw_frame r_def pos_def)
qed

theorem DrawIntoParent_overlay_unclipped_witness:
  "vps (world_of [(0, vp_parent), (1, vp_overlay)]) 1 = Some vp_overlay \<and> IsOverlay vp_overlay \<and>
   vps (world_of [(0, vp_parent), (1, vp_overlay)]) 0 = Some vp_parent \<and>
   Pixels vp_overlay = Some (buffer 11 4 4 px_grad) \<and>
   Pixels vp_parent = Some (buffer 10 8 8 px_clear) \<and>
   Min_r (Rect (buffer 11 4 4 px_grad)) = ZP \<and>
   \<not> Point_In (Pt 5 5) (VpBBox vp_parent) \<and>
   Pix (buffer 10 8 8 px_clear) 5 5 = \<lparr>cR = 0, cG = 0, cB = 0, cA = 0\<rparr> \<and>
   (\<exists>dst'. DrawIntoParent 1 (Some 0) (world_of [(0, vp_parent), (1, vp_overlay)]) =
        Inr ((world_of [(0, vp_parent), (1, vp_overlay)])
              \<lparr>vps := (vps (world_of [(0, vp_parent), (1, vp_overlay)]))(0 \<mapsto> vp_parent\<lparr>Pixels := Some dst'\<rparr>)\<rparr>) \<and>
      Pix dst' 5 5 = \<lparr>cR = 3, cG = 3, cB = 0, cA = 255\<rparr> \<and>
      Pix dst' 2 2 = \<lparr>cR = 0, cG = 0, cB = 0, cA = 255\<rparr> \<and>
      Pix dst' 1 1 = \<lparr>cR = 0, cG = 0, cB = 0, cA = 0\<rparr> \<and>
      Pix dst' 6 6 = \<lparr>cR = 0, cG = 0, cB = 0, cA = 0\<rparr>)"
proof -
  let ?w = "world_of [(0, vp_parent), (1, vp_overlay)]"
  have h: "vps ?w 1 = Some vp_overlay" "IsOverlay vp_overlay" "vps ?w 0 = Some vp_parent"
    "Pixels vp_overlay = Some (buffer 11 4 4 px_grad)"
    "Pixels vp_parent = Some (buffer 10 8 8 px_clear)"
    "Min_r (Rect (buffer 11 4 4 px_grad)) = ZP"
    by (simp_all add: world_of_def vp_overlay_def vp_parent_def buffer_def)
  have out: "\<not> Point_In (Pt 5 5) (VpBBox vp_parent)"
    by (simp add: vp_parent_def rect4_def Point_In_def Pt_def)
  have before: "Pix (buffer 10 8 8 px_clear) 5 5 = \<lparr>cR = 0, cG = 0, cB = 0, cA = 0\<rparr>"
    by (simp add: buffer_def px_clear_def)
  have pos: "Vec2D_ToPoint (AllocPos vp_overlay) = Pt 2 2"
    by (simp add: vp_overlay_def Vec2D_ToPoint_def trunc0_def)
  from DrawIntoParent_overlay_unclipped [OF h]
  obtain dst' where d: "DrawIntoParent 1 (Some 0) ?w =
        Inr (?w\<lparr>vps := (vps ?w)(0 \<mapsto> vp_parent\<lparr>Pixels := Some dst'\<rparr>)\<rparr>)"
    and p: "\<And>x y. Pix dst' x y =
              (if Point_In (Pt x y) (Rect (buffer 10 8 8 px_clear)) \<and>
                  Point_In (Pt x y) (Rect_Add (Rect (buffer 11 4 4 px_grad)) (Pt 2 2))
               then (if cA (Pix (buffer 11 4 4 px_grad) (x - X (Pt 2 2)) (y - Y (Pt 2 2))) = 255
                     then Pix (buffer 11 4 4 px_grad) (x - X (Pt 2 2)) (y - Y (Pt 2 2))
                     else if Pix (buffer 11 4 4 px_grad) (x - X (Pt 2 2)) (y - Y (Pt 2 2)) =
                             \<lparr>cR = 0, cG = 0, cB = 0, cA = 0\<rparr>
                     then Pix (buffer 10 8 8 px_clear) x y
                     else draw_Over (Pix (buffer 10 8 8 px_clear) x y)
                            (Pix (buffer 11 4 4 px_grad) (x - X (Pt 2 2)) (y - Y (Pt 2 2))))
               else Pix (buffer 10 8 8 px_clear) x y)"
    unfolding pos by blast
  have e: "Pix dst' 5 5 = \<lparr>cR = 3, cG = 3, cB = 0, cA = 255\<rparr>"
    "Pix dst' 2 2 = \<lparr>cR = 0, cG = 0, cB = 0, cA = 255\<rparr>"
    "Pix dst' 1 1 = \<lparr>cR = 0, cG = 0, cB = 0, cA = 0\<rparr>"
    "Pix dst' 6 6 = \<lparr>cR = 0, cG = 0, cB = 0, cA = 0\<rparr>"
    unfolding p
    by (simp_all add: buffer_def Point_In_def Rect_Add_def Point_Add_def Pt_def ZP_def
        px_grad_def px_clear_def)
  show ?thesis
    using h out before d e by blast
qed

text \<open>
  Claim C4 as stated fails: the composition is not a copy. A fully transparent overlay
  drawn into a painted parent leaves the parent's pixel under it as it was
  (\<open>(3, 3, 0, 255)\<close> at the point \<open>(3, 3)\<close>), where a copy of the overlay's buffer would
  have put the overlay's pixel \<open>(0, 0, 0, 0)\<close>.
\<close>

theorem DrawIntoParent_overlay_composes:
  "IsOverlay vp_overlay_clear \<and>
   DrawIntoParent 1 (Some 0) (world_of [(0, vp_parent_painted), (1, vp_overlay_clear)]) =
     Inr ((world_of [(0, vp_parent_painted), (1, vp_overlay_clear)])
           \<lparr>vps := (vps (world_of [(0, vp_parent_painted), (1, vp_overlay_clear)]))
              (0 \<mapsto> vp_parent_painted\<lparr>Pixels := Some (draw_Draw (buffer 10 8 8 px_grad) (rect4 2 2 6 6)
                                                       (buffer 11 4 4 px_clear) ZP)\<rparr>)\<rparr>) \<and>
   Pix (draw_Draw (buffer 10 8 8 px_grad) (rect4 2 2 6 6) (buffer 11 4 4 px_clear) ZP) 3 3 =
     \<lparr>cR = 3, cG = 3, cB = 0, cA = 255\<rparr> \<and>
   Pix (buffer 11 4 4 px_clear) 1 1 = \<lparr>cR = 0, cG = 0, cB = 0, cA = 0\<rparr>"
proof -
  have r: "Rect_Add (Rect (buffer 11 4 4 px_clear)) (Vec2D_ToPoint (AllocPos vp_overlay_clear)) =
      rect4 2 2 6 6"
    by (simp add: vp_overlay_clear_def vp_overlay_def Vec2D_ToPoint_def trunc0_def buffer_def
        rect4_def Rect_Add_def Point_Add_def Pt_def ZP_def)
  have o: "IsOverlay vp_overlay_clear" "Pixels vp_overlay_clear = Some (buffer 11 4 4 px_clear)"
    by (simp_all add: vp_overlay_clear_def vp_overlay_def)
  have p: "Pixels vp_parent_painted = Some (buffer 10 8 8 px_grad)"
    by (simp add: vp_parent_painted_def)
  have run: "DrawIntoParent 1 (Some 0) (world_of [(0, vp_parent_painted), (1, vp_overlay_clear)]) =
     Inr ((world_of [(0, vp_parent_painted), (1, vp_overlay_clear)])
           \<lparr>vps := (vps (world_of [(0, vp_parent_painted), (1, vp_overlay_clear)]))
              (0 \<mapsto> vp_parent_painted\<lparr>Pixels := Some (draw_Draw (buffer 10 8 8 px_grad) (rect4 2 2 6 6)
                                                       (buffer 11 4 4 px_clear) ZP)\<rparr>)\<rparr>)"
    by (simp add: DrawIntoParent_def draw_into_def deref_def set_vp_def world_of_def o p r)
  have pix: "Pix (draw_Draw (buffer 10 8 8 px_grad) (rect4 2 2 6 6) (buffer 11 4 4 px_clear) ZP) 3 3 =
     \<lparr>cR = 3, cG = 3, cB = 0, cA = 255\<rparr>"
    by (simp add: draw_Draw_Pix draw_Over_clear buffer_def rect4_def Point_In_def Rect_Add_def
        Point_Add_def Point_Sub_def Pt_def ZP_def px_grad_def px_clear_def)
  have src: "Pix (buffer 11 4 4 px_clear) 1 1 = \<lparr>cR = 0, cG = 0, cB = 0, cA = 0\<rparr>"
    by (simp add: buffer_def px_clear_def)
  from o(1) run pix src show ?thesis by blast
qed

text \<open>
  Claim C5. For a viewport that is not an overlay, with a tree parent that is a
  \<open>Node2D\<close>, and a parent viewport, \<open>DrawIntoParent\<close> calls \<open>draw.Draw\<close> with the
  intersection \<open>nr\<close> of the view box and the tree parent's children box, and with the
  source point moved by what the intersection cut off the top-left corner of the view
  box. So the pixels drawn are those of the intersection (as far as both buffers have
  them), each composed with the viewport's pixel at its offset from the view box's
  corner: it becomes the viewport's pixel where that is opaque, stays what it was where
  that is fully transparent, and is their composite otherwise. Every pixel outside the
  intersection keeps its colour, and when the intersection is empty the parent's buffer
  is left as it was.
\<close>

theorem DrawIntoParent_nested_intersection:
  assumes "vps w a = Some vp" and "\<not> IsOverlay vp" and "Par vp = Some (ParNode2D cbb)"
    and "vps w pa = Some par" and "Pixels vp = Some src" and "Pixels par = Some dst"
  shows "let vb = ViewBox_Bounds (ViewBox vp);
             nr = Rect_Intersect vb cbb;
             dst' = draw_Draw dst nr src (Point_Sub (Min_r nr) (Min_r vb))
         in DrawIntoParent a (Some pa) w = Inr (w\<lparr>vps := (vps w)(pa \<mapsto> par\<lparr>Pixels := Some dst'\<rparr>)\<rparr>) \<and>
            addr dst' = addr dst \<and> Rect dst' = Rect dst \<and>
            (\<forall>x y. Pix dst' x y =
               (if Point_In (Pt x y) nr \<and> Point_In (Pt x y) (Rect dst) \<and>
                   Point_In (Pt x y) (Rect_Add (Rect src) (Min_r vb))
                then (if cA (Pix src (x - X (Min_r vb)) (y - Y (Min_r vb))) = 255
                      then Pix src (x - X (Min_r vb)) (y - Y (Min_r vb))
                      else if Pix src (x - X (Min_r vb)) (y - Y (Min_r vb)) =
                              \<lparr>cR = 0, cG = 0, cB = 0, cA = 0\<rparr>
                      then Pix dst x y
                      else draw_Over (Pix dst x y) (Pix src (x - X (Min_r vb)) (y - Y (Min_r vb))))
                else Pix dst x y)) \<and>
            (Rect_Empty nr \<longrightarrow> dst' = dst)"
proof -
  define vb where "vb = ViewBox_Bounds (ViewBox vp)"
  define nr where "nr = Rect_Intersect vb cbb"
  define dst' where "dst' = draw_Draw dst nr src (Point_Sub (Min_r nr) (Min_r vb))"
  have run: "DrawIntoParent a (Some pa) w = Inr (w\<lparr>vps := (vps w)(pa \<mapsto> par\<lparr>Pixels := Some dst'\<rparr>)\<rparr>)"
    using assms
    by (simp add: DrawIntoParent_def draw_into_def deref_Some set_vp_def dst'_def nr_def vb_def Let_def)
  have shift: "Point_Sub (Min_r nr) (Point_Sub (Min_r nr) (Min_r vb)) = Min_r vb"
    by (simp add: Point_Sub_def Pt_def)
  have sx: "x - X (Min_r nr) + X (Point_Sub (Min_r nr) (Min_r vb)) = x - X (Min_r vb)" for x
    by (simp add: Point_Sub_def Pt_def)
  have sy: "y - Y (Min_r nr) + Y (Point_Sub (Min_r nr) (Min_r vb)) = y - Y (Min_r vb)" for y
    by (simp add: Point_Sub_def Pt_def)
  have pix0: "Pix dst' x y =
      (if Point_In (Pt x y) nr \<and> Point_In (Pt x y) (Rect dst) \<and>
          Point_In (Pt x y) (Rect_Add (Rect src) (Min_r vb))
       then draw_Over (Pix dst x y) (Pix src (x - X (Min_r vb)) (y - Y (Min_r vb)))
       else Pix dst x y)" for x y
    unfolding dst'_def draw_Draw_Pix shift sx sy ..
  have pix: "Pix dst' x y =
      (if Point_In (Pt x y) nr \<and> Point_In (Pt x y) (Rect dst) \<and>
          Point_In (Pt x y) (Rect_Add (Rect src) (Min_r vb))
       then (if cA (Pix src (x - X (Min_r vb)) (y - Y (Min_r vb))) = 255
             then Pix src (x - X (Min_r vb)) (y - Y (Min_r vb))
             else if Pix src (x - X (Min_r vb)) (y - Y (Min_r vb)) =
                     \<lparr>cR = 0, cG = 0, cB = 0, cA = 0\<rparr>
             then Pix dst x y
             else draw_Over (Pix dst x y) (Pix src (x - X (Min_r vb)) (y - Y (Min_r vb))))
       else Pix dst x y)" for x y
    unfolding pix0 [of x y] by (simp add: draw_Over_opaque draw_Over_clear)
  have emp: "Rect_Empty nr \<longrightarrow> dst' = dst"
    by (simp add: dst'_def draw_Draw_empty)
  show ?thesis
    using run pix emp
    unfolding Let_def vb_def [symmetric] nr_def [symmetric] dst'_def [symmetric]
    by (simp add: dst'_def draw_Draw_frame)
qed

theorem DrawIntoParent_nested_intersection_witness:
  "vps (world_of [(0, vp_parent), (1, vp_nested (rect4 3 3 8 8))]) 1 = Some (vp_nested (rect4 3 3 8 8)) \<and>
   \<not> IsOverlay (vp_nested (rect4 3 3 8 8)) \<and>
   Par (vp_nested (rect4 3 3 8 8)) = Some (ParNode2D (rect4 3 3 8 8)) \<and>
   vps (world_of [(0, vp_parent), (1, vp_nested (rect4 3 3 8 8))]) 0 = Some vp_parent \<and>
   Pixels (vp_nested (rect4 3 3 8 8)) = Some (buffer 11 4 4 px_grad) \<and>
   Pixels vp_parent = Some (buffer 10 8 8 px_clear) \<and>
   DrawIntoParent 1 (Some 0) (world_of [(0, vp_parent), (1, vp_nested (rect4 3 3 8 8))]) =
     Inr ((world_of [(0, vp_parent), (1, vp_nested (rect4 3 3 8 8))])
           \<lparr>vps := (vps (world_of [(0, vp_parent), (1, vp_nested (rect4 3 3 8 8))]))
              (0 \<mapsto> vp_parent\<lparr>Pixels := Some (draw_Draw (buffer 10 8 8 px_clear) (rect4 3 3 6 6)
                                                 (buffer 11 4 4 px_grad) (Pt 1 1))\<rparr>)\<rparr>) \<and>
   Pix (buffer 10 8 8 px_clear) 3 3 = \<lparr>cR = 0, cG = 0, cB = 0, cA = 0\<rparr> \<and>
   Pix (draw_Draw (buffer 10 8 8 px_clear) (rect4 3 3 6 6) (buffer 11 4 4 px_grad) (Pt 1 1)) 3 3 =
     \<lparr>cR = 1, cG = 1, cB = 0, cA = 255\<rparr> \<and>
   Pix (draw_Draw (buffer 10 8 8 px_clear) (rect4 3 3 6 6) (buffer 11 4 4 px_grad) (Pt 1 1)) 5 4 =
     \<lparr>cR = 3, cG = 2, cB = 0, cA = 255\<rparr> \<and>
   Pix (draw_Draw (buffer 10 8 8 px_clear) (rect4 3 3 6 6) (buffer 11 4 4 px_grad) (Pt 1 1)) 2 2 =
     \<lparr>cR = 0, cG = 0, cB = 0, cA = 0\<rparr> \<and>
   Pix (draw_Draw (buffer 10 8 8 px_clear) (rect4 3 3 6 6) (buffer 11 4 4 px_grad) (Pt 1 1)) 6 6 =
     \<lparr>cR = 0, cG = 0, cB = 0, cA = 0\<rparr> \<and>
   Rect_Empty (Rect_Intersect (ViewBox_Bounds (ViewBox (vp_nested (rect4 6 6 8 8)))) (rect4 6 6 8 8)) \<and>
   DrawIntoParent 1 (Some 0) (world_of [(0, vp_parent), (1, vp_nested (rect4 6 6 8 8))]) =
     Inr ((world_of [(0, vp_parent), (1, vp_nested (rect4 6 6 8 8))])
           \<lparr>vps := (vps (world_of [(0, vp_parent), (1, vp_nested (rect4 6 6 8 8))]))
              (0 \<mapsto> vp_parent\<lparr>Pixels := Some (buffer 10 8 8 px_clear)\<rparr>)\<rparr>)"
proof -
  let ?w = "\<lambda>c. world_of [(0, vp_parent), (1, vp_nested c)]"
  let ?d = "draw_Draw (buffer 10 8 8 px_clear) (rect4 3 3 6 6) (buffer 11 4 4 px_grad) (Pt 1 1)"
  have h: "vps (?w c) 1 = Some (vp_nested c)" "\<not> IsOverlay (vp_nested c)"
    "Par (vp_nested c) = Some (ParNode2D c)" "vps (?w c) 0 = Some vp_parent"
    "Pixels (vp_nested c) = Some (buffer 11 4 4 px_grad)"
    "Pixels vp_parent = Some (buffer 10 8 8 px_clear)" for c
    by (simp_all add: world_of_def vp_nested_def vp_parent_def vp_zero_def)
  have vb: "ViewBox_Bounds (ViewBox (vp_nested c)) = rect4 2 2 6 6" for c
    by (simp add: vp_nested_def ViewBox_Bounds_def rect4_def Point_Add_def Pt_def)
  have nr1: "Rect_Intersect (rect4 2 2 6 6) (rect4 3 3 8 8) = rect4 3 3 6 6"
    by (simp add: Rect_Intersect_def Rect_Empty_def rect4_def Pt_def)
  have sp1: "Point_Sub (Min_r (rect4 3 3 6 6)) (Min_r (rect4 2 2 6 6)) = Pt 1 1"
    by (simp add: Point_Sub_def rect4_def Pt_def)
  have nr2: "Rect_Empty (Rect_Intersect (rect4 2 2 6 6) (rect4 6 6 8 8))"
    by (simp add: Rect_Intersect_def Rect_Empty_def rect4_def Pt_def ZR_def ZP_def)
  have before: "Pix (buffer 10 8 8 px_clear) 3 3 = \<lparr>cR = 0, cG = 0, cB = 0, cA = 0\<rparr>"
    by (simp add: buffer_def px_clear_def)
  note t1 = DrawIntoParent_nested_intersection [OF h, of "rect4 3 3 8 8", unfolded Let_def vb nr1 sp1]
  note t2 = DrawIntoParent_nested_intersection [OF h, of "rect4 6 6 8 8", unfolded Let_def vb]
  from t1 have run1: "DrawIntoParent 1 (Some 0) (?w (rect4 3 3 8 8)) =
     Inr ((?w (rect4 3 3 8 8))\<lparr>vps := (vps (?w (rect4 3 3 8 8)))(0 \<mapsto> vp_parent\<lparr>Pixels := Some ?d\<rparr>)\<rparr>)"
    by blast
  from t1 have pix: "\<And>x y. Pix ?d x y =
       (if Point_In (Pt x y) (rect4 3 3 6 6) \<and> Point_In (Pt x y) (Rect (buffer 10 8 8 px_clear)) \<and>
           Point_In (Pt x y) (Rect_Add (Rect (buffer 11 4 4 px_grad)) (Min_r (rect4 2 2 6 6)))
        then (if cA (Pix (buffer 11 4 4 px_grad) (x - X (Min_r (rect4 2 2 6 6))) (y - Y (Min_r (rect4 2 2 6 6)))) = 255
              then Pix (buffer 11 4 4 px_grad) (x - X (Min_r (rect4 2 2 6 6))) (y - Y (Min_r (rect4 2 2 6 6)))
              else if Pix (buffer 11 4 4 px_grad) (x - X (Min_r (rect4 2 2 6 6))) (y - Y (Min_r (rect4 2 2 6 6))) =
                      \<lparr>cR = 0, cG = 0, cB = 0, cA = 0\<rparr>
              then Pix (buffer 10 8 8 px_clear) x y
              else draw_Over (Pix (buffer 10 8 8 px_clear) x y)
                     (Pix (buffer 11 4 4 px_grad) (x - X (Min_r (rect4 2 2 6 6))) (y - Y (Min_r (rect4 2 2 6 6)))))
        else Pix (buffer 10 8 8 px_clear) x y)"
    by blast
  have e: "Pix ?d 3 3 = \<lparr>cR = 1, cG = 1, cB = 0, cA = 255\<rparr>"
    "Pix ?d 5 4 = \<lparr>cR = 3, cG = 2, cB = 0, cA = 255\<rparr>"
    "Pix ?d 2 2 = \<lparr>cR = 0, cG = 0, cB = 0, cA = 0\<rparr>"
    "Pix ?d 6 6 = \<lparr>cR = 0, cG = 0, cB = 0, cA = 0\<rparr>"
    unfolding pix
    by (simp_all add: buffer_def rect4_def Point_In_def Rect_Add_def Point_Add_def Pt_def ZP_def
        px_grad_def px_clear_def)
  from t2 nr2 have run2: "DrawIntoParent 1 (Some 0) (?w (rect4 6 6 8 8)) =
     Inr ((?w (rect4 6 6 8 8))\<lparr>vps := (vps (?w (rect4 6 6 8 8)))
              (0 \<mapsto> vp_parent\<lparr>Pixels := Some (buffer 10 8 8 px_clear)\<rparr>)\<rparr>)"
    by simp
  show ?thesis
    using h(1-5) [of "rect4 3 3 8 8"] h(6) run1 before e nr2 run2 unfolding vb by blast
qed

section \<open>Theorems: the clip stack across a render pass (PushBounds, Render2D)\<close>

text \<open>
  Drawing into the parent, uploading and setting the window leave every clip stack at
  its depth.
\<close>

lemma clip_depth_set_vp_other: "b \<noteq> a \<Longrightarrow> clip_depth (set_vp a vp w) b = clip_depth w b"
  by (simp add: clip_depth_def set_vp_def)

lemma clip_depth_set_vp_same:
  "clip_depth (set_vp a vp w) a = Some (length (BoundsStack (Render vp)))"
  by (simp add: clip_depth_def set_vp_def)

lemma clip_depth_emit: "clip_depth (emit es w) b = clip_depth w b"
  by (simp add: clip_depth_def emit_def)

lemma clip_depth_set_vp_Render:
  assumes "vps w a = Some vp0" and "Render vp = Render vp0"
  shows "clip_depth (set_vp a vp w) b = clip_depth w b"
  using assms by (cases "b = a") (simp_all add: clip_depth_def set_vp_def)

lemma draw_into_depth:
  assumes "draw_into parVp r src sp w = Inr w'"
  shows "clip_depth w' b = clip_depth w b"
  using assms
  by (auto simp add: draw_into_def deref_def bindP_def clip_depth_set_vp_Render
      split: option.splits sum.splits)

lemma DrawIntoParent_depth:
  assumes "DrawIntoParent a parVp w = Inr w'"
  shows "clip_depth w' b = clip_depth w b"
  using assms
  by (auto simp add: DrawIntoParent_def deref_def bindP_def Let_def draw_into_depth
      split: option.splits sum.splits if_splits ParNode.splits prod.splits)

lemma RenderViewport2D_depth:
  assumes "RenderViewport2D a w = Inr w'"
  shows "clip_depth w' b = clip_depth w b"
proof -
  obtain vp where vp: "vps w a = Some vp"
    using assms by (auto simp add: RenderViewport2D_def deref_def bindP_def split: option.splits)
  show ?thesis
  proof (cases "IsPopup vp")
    case True
    with assms vp show ?thesis
      by (auto simp add: RenderViewport2D_def SetCurWin_def UploadToWin_def deref_def bindP_def
          clip_depth_emit clip_depth_set_vp_Render set_vp_def emit_def clip_depth_def
          split: option.splits sum.splits if_splits)
  next
    case False
    show ?thesis
    proof (cases "Viewport vp")
      case None
      with False assms vp show ?thesis
        by (auto simp add: RenderViewport2D_def UploadMainToWin_def deref_def bindP_def
            clip_depth_emit emit_def clip_depth_def split: option.splits if_splits)
    next
      case (Some pa)
      with False assms vp have "DrawIntoParent a (Some pa)
          (if Render2DTrace w then emit [FmtPrintf ''Render: DrawIntoParent''] w else w) = Inr w'"
        by (simp add: RenderViewport2D_def deref_def)
      from DrawIntoParent_depth [OF this] show ?thesis
        by (simp add: clip_depth_emit split: if_splits)
    qed
  qed
qed

text \<open>
  The part of claim C6 that holds: a completed \<open>Render2D\<close> of a viewport that is not an
  overlay leaves the clip stack of every viewport at its entry depth, provided the
  painter and the children's passes do. On the two early returns of \<open>PushBounds\<close>
  nothing was pushed and nothing is popped; otherwise the push and the pop are both on
  the viewport's own stack.
\<close>

lemma Render2D_balanced_unless_overlay:
  assumes vp: "vps w a = Some vp" and no: "\<not> IsOverlay vp"
    and fill: "\<And>w1 w2 c. FillBox a w1 = Inr w2 \<Longrightarrow> clip_depth w2 c = clip_depth w1 c"
    and kids: "\<And>w1 w2 c. Render2DChildren a w1 = Inr w2 \<Longrightarrow> clip_depth w2 c = clip_depth w1 c"
    and run: "Render2D FillBox Render2DChildren a w = Inr w'"
  shows "clip_depth w' b = clip_depth w b"
proof -
  obtain ok w1 where push: "PushBounds a w = Inr (ok, w1)"
    using run by (cases "PushBounds a w") (auto simp add: Render2D_def)
  show ?thesis
  proof (cases ok)
    case False
    with push run have "w' = w1" by (simp add: Render2D_def)
    moreover from push False vp no have "w1 = w"
      by (auto simp add: PushBounds_def deref_def bindP_def Let_def
          split: option.splits sum.splits if_splits)
    ultimately show ?thesis by simp
  next
    case True
    let ?vp1 = "vp\<lparr>Render := RenderState_PushBounds (VpBBox vp) (Render vp)\<rparr>"
    from push True vp no have d1: "clip_depth w1 c = clip_depth (set_vp a ?vp1 w) c" for c
      by (auto simp add: PushBounds_def deref_def bindP_def Let_def clip_depth_emit
          split: option.splits sum.splits if_splits)
    from push True run have "\<exists>w2 w3 w4.
         (w2 = w1 \<or> FillViewport FillBox a w1 = Inr w2) \<and>
         Render2DChildren a w2 = Inr w3 \<and> RenderViewport2D a w3 = Inr w4 \<and> PopBounds a w4 = Inr w'"
      by (auto simp add: Render2D_def bindP_def split: sum.splits if_splits)
    then obtain w2 w3 w4 where
      s: "w2 = w1 \<or> FillViewport FillBox a w1 = Inr w2"
         "Render2DChildren a w2 = Inr w3" "RenderViewport2D a w3 = Inr w4" "PopBounds a w4 = Inr w'"
      by blast
    have d2: "clip_depth w2 c = clip_depth w1 c" for c
      using s(1) fill by (auto simp add: FillViewport_def)
    have d3: "clip_depth w3 c = clip_depth w2 c" for c
      using s(2) kids by simp
    have d4: "clip_depth w4 c = clip_depth w3 c" for c
      using s(3) by (rule RenderViewport2D_depth)
    have d4a: "clip_depth w4 a = Some (Suc (length (BoundsStack (Render vp))))"
      by (simp add: d4 d3 d2 d1 clip_depth_set_vp_same RenderState_PushBounds_def)
    from s(4) d4a have same: "clip_depth w' a = Some (length (BoundsStack (Render vp)))"
      by (auto simp add: PopBounds_def deref_def bindP_def clip_depth_def set_vp_def
          RenderState_PopBounds_def split: option.splits if_splits)
    from s(4) have other: "c \<noteq> a \<Longrightarrow> clip_depth w' c = clip_depth w4 c" for c
      by (auto simp add: PopBounds_def deref_def bindP_def clip_depth_set_vp_other
          split: option.splits)
    show ?thesis
    proof (cases "b = a")
      case True
      with same vp show ?thesis by (simp add: clip_depth_def)
    next
      case False
      then show ?thesis
        by (simp add: other d4 d3 d2 d1 clip_depth_set_vp_other)
    qed
  qed
qed

text \<open>
  Claim C6 at a failing input: an overlay viewport (address 1) whose parent viewport
  (address 0) has an empty clip stack, the overlay's own stack holding one rectangle of
  an enclosing pass. \<open>PushBounds\<close> pushes the parent's bounds on the parent's stack,
  \<open>PopBounds\<close> pops the overlay's own stack: after the completed pass the parent's stack
  is one deeper than at entry and the overlay's one shallower.
\<close>

theorem Render2D_overlay_unbalanced:
  "clip_depth world_overlay_pass 0 = Some 0 \<and>
   clip_depth world_overlay_pass 1 = Some 1 \<and>
   bindP (Render2D no_pass no_pass 1 world_overlay_pass)
     (\<lambda>w'. Inr (clip_depth w' 0, clip_depth w' 1)) = Inr (Some 1, Some 0)"
proof -
  let ?w = "world_overlay_pass"
  let ?par1 = "vp_parent\<lparr>Render := RenderState_PushBounds (rect4 0 0 8 8) (Render vp_parent)\<rparr>"
  let ?w1 = "set_vp 0 ?par1 ?w"
  let ?dst = "draw_Draw (buffer 10 8 8 px_clear)
      (Rect_Add (Rect (buffer 11 4 4 px_grad)) (Vec2D_ToPoint (AllocPos vp_overlay_in_pass)))
      (buffer 11 4 4 px_grad) ZP"
  let ?w2 = "set_vp 0 (?par1\<lparr>Pixels := Some ?dst\<rparr>) ?w1"
  have v: "deref ?w 0 = Inr vp_parent" "deref ?w (Suc 0) = Inr vp_overlay_in_pass"
    by (simp_all add: deref_def world_overlay_pass_def world_of_def)
  have o: "IsOverlay vp_overlay_in_pass" "Viewport vp_overlay_in_pass = Some 0"
    "\<not> IsPopup vp_overlay_in_pass" "\<not> Fill vp_overlay_in_pass"
    "Pixels vp_overlay_in_pass = Some (buffer 11 4 4 px_grad)"
    "Render vp_overlay_in_pass = \<lparr>Image_rs = Some 11, Bounds = rect4 0 0 4 4, BoundsStack = [rect4 0 0 9 9]\<rparr>"
    by (simp_all add: vp_overlay_in_pass_def vp_overlay_def vp_zero_def)
  have p: "Pixels vp_parent = Some (buffer 10 8 8 px_clear)" "BoundsStack (Render vp_parent) = []"
    "Rect (buffer 10 8 8 px_clear) = rect4 0 0 8 8"
    by (simp_all add: vp_parent_def vp_zero_def buffer_def rect4_def ZP_def)
  have d0: "clip_depth ?w 0 = Some 0" "clip_depth ?w (Suc 0) = Some (Suc 0)"
    by (simp_all add: clip_depth_def world_overlay_pass_def world_of_def o p)
  have push: "PushBounds (Suc 0) ?w = Inr (True, ?w1)"
    by (simp add: PushBounds_def v o p)
  have v1: "deref ?w1 0 = Inr ?par1" "deref ?w1 (Suc 0) = Inr vp_overlay_in_pass"
    "\<not> Render2DTrace ?w1"
    by (simp_all add: deref_def set_vp_def world_overlay_pass_def world_of_def)
  have draw: "RenderViewport2D (Suc 0) ?w1 = Inr ?w2"
    by (simp add: RenderViewport2D_def DrawIntoParent_def draw_into_def v1 o p Let_def)
  have v2: "deref ?w2 (Suc 0) = Inr vp_overlay_in_pass"
    by (simp add: deref_def set_vp_def world_overlay_pass_def world_of_def)
  have pop: "PopBounds (Suc 0) ?w2 =
      Inr (set_vp (Suc 0) (vp_overlay_in_pass\<lparr>Render := RenderState_PopBounds (Render vp_overlay_in_pass)\<rparr>) ?w2)"
    by (simp add: PopBounds_def v2)
  have run: "Render2D no_pass no_pass (Suc 0) ?w =
      Inr (set_vp (Suc 0) (vp_overlay_in_pass\<lparr>Render := RenderState_PopBounds (Render vp_overlay_in_pass)\<rparr>) ?w2)"
    using pop by (simp add: Render2D_def push v1 o no_pass_def draw)
  show ?thesis
    using d0 by (simp add: run clip_depth_def set_vp_def RenderState_PopBounds_def RenderState_PushBounds_def o p)
qed

section \<open>Theorems: the classifier (SignalViewport2D)\<close>

text \<open>
  The local variable \<open>fullRend\<close>: with an \<open>int64\<close> payload it is true exactly when the
  signal is not \<open>NodeSignalUpdated\<close> or a structure bit is set. The value bits do not
  enter: a payload with neither kind of bit leaves \<open>fullRend\<close> at its initial false.
\<close>

lemma fullRend_of_Int64:
  "fullRend_of k sig (IInt64 dflags) =
     Inr (sig \<noteq> NodeSignalUpdated k \<or> bitflag_HasMask dflags (StruUpdateFlagsMask k))"
  by (simp add: fullRend_of_def Let_def)

lemma fullRend_of_other_signal: "sig \<noteq> NodeSignalUpdated k \<Longrightarrow> fullRend_of k sig data = Inr True"
  by (simp add: fullRend_of_def)

text \<open>
  Claim C2, as amended. For a signal from a node that is neither deleted nor destroyed
  nor updating, delivered to a viewport, with an \<open>int64\<close> payload whenever the signal
  is \<open>NodeSignalUpdated\<close>: after the optional trace line the classifier performs exactly
  the one action that \<open>precedence\<close> selects. That is a full-tree re-render when the
  signal is not \<open>NodeSignalUpdated\<close> or a structure bit is set; otherwise, whether or
  not a value bit is set, a re-render of the node that \<open>ReRender2D()\<close> returns, after a
  layout of that node when \<open>ReRender2D()\<close> asks for one; otherwise an anchor re-render
  when there is an anchor; otherwise a restyle of the node and a re-render of the
  viewport's subtree.
\<close>

theorem SignalViewport2D_precedence:
  assumes "AsViewport2D vpgi = Some vp"
    and "\<not> IsDeleted gi" and "\<not> IsDestroyed gi" and "\<not> IsUpdatingAtomic gi"
    and "data = IInt64 dflags \<or> sig \<noteq> NodeSignalUpdated k"
  shows "SignalViewport2D ext k (KiNode2D vpgi) (KiNode2D gi) sig data s =
           Inr (perform ext vp gi (precedence k gi sig dflags)
                  (trace_Printf ext ''Update: Viewport2D: rendering due to signal'' s))"
proof (cases "sig = NodeSignalUpdated k")
  case True
  with assms(5) have d: "data = IInt64 dflags" by simp
  show ?thesis
  proof (cases "bitflag_HasMask dflags (StruUpdateFlagsMask k)")
    case stru: True
    with True assms(1-4) show ?thesis
      by (simp add: SignalViewport2D_def d fullRend_of_Int64 precedence_def bindP_def)
  next
    case False
    with True assms(1-4) show ?thesis
      by (simp add: SignalViewport2D_def d fullRend_of_Int64 precedence_def bindP_def Let_def
          split: prod.splits option.splits)
  qed
next
  case False
  with assms(1-4) show ?thesis
    by (simp add: SignalViewport2D_def fullRend_of_other_signal precedence_def bindP_def)
qed

theorem SignalViewport2D_precedence_witness:
  "AsViewport2D vp_node = Some 0 \<and>
   \<not> IsDeleted (widget (None, False) (Some 3)) \<and> \<not> IsDestroyed (widget (None, False) (Some 3)) \<and>
   \<not> IsUpdatingAtomic (widget (None, False) (Some 3)) \<and>
   precedence ki_consts (widget (None, False) (Some 3)) 1 0x1000 = AnchorReRender 3 \<and>
   SignalViewport2D (recording False) ki_consts (KiNode2D vp_node)
       (KiNode2D (widget (None, False) (Some 3))) 1 (IInt64 0x1000) [] =
     Inr [Call_Style2DTree 5, Call_ReRender2DTree 3, Call_UpdateStart 9,
          Call_UploadVpRegion 9 0 3, Call_UpdateEnd 9]"
proof -
  let ?gi = "widget (None, False) (Some 3)"
  have a: "AsViewport2D vp_node = Some 0"
    by (simp add: vp_node_def)
  have b: "\<not> IsDeleted ?gi" "\<not> IsDestroyed ?gi" "\<not> IsUpdatingAtomic ?gi"
    by (simp_all add: widget_def)
  have c: "IInt64 0x1000 = IInt64 0x1000 \<or> (1 :: 64 word) \<noteq> NodeSignalUpdated ki_consts"
    by simp
  have p: "precedence ki_consts ?gi 1 0x1000 = AnchorReRender 3"
    by (simp add: precedence_def ki_consts_def widget_def bitflag_HasMask_def)
  have r: "perform (recording False) 0 ?gi (AnchorReRender 3)
        (trace_Printf (recording False) ''Update: Viewport2D: rendering due to signal'' []) =
      [Call_Style2DTree 5, Call_ReRender2DTree 3, Call_UpdateStart 9,
       Call_UploadVpRegion 9 0 3, Call_UpdateEnd 9]"
    by (simp add: trace_Printf_def recording_def ReRender2DAnchor_def upload_region_def widget_def)
  from SignalViewport2D_precedence [OF a b c, of "recording False" "[]"] show ?thesis
    unfolding p r using a b p by simp
qed

text \<open>
  Claim C2 as stated fails in two places. First, a \<open>NodeSignalUpdated\<close> signal whose
  payload has neither a value bit nor a structure bit, from a widget that can re-render
  itself and has no anchor: the claim selects the full-tree re-render (and, were its
  second rule read as "the signal is not \<open>NodeSignalUpdated\<close>", the subtree re-render,
  its third rule asking for a value change); the code re-renders the node. Second, a
  value change from a widget whose \<open>ReRender2D()\<close> asks for layout: the claim selects a
  node re-render without layout; the code lays the node out first.
\<close>

theorem SignalViewport2D_not_claimed_precedence:
  "claimed_precedence ki_consts (widget (Some 5, False) None) 1 0 = FullTree \<and>
   perform (recording False) 0 (widget (Some 5, False) None) FullTree [] = [Call_FullRender2DTree 0] \<and>
   perform (recording False) 0 (widget (Some 5, False) None) SubtreeReRender [] =
     [Call_Style2DTree 5, Call_ReRender2DTree 0] \<and>
   SignalViewport2D (recording False) ki_consts (KiNode2D vp_node)
       (KiNode2D (widget (Some 5, False) None)) 1 (IInt64 0) [] =
     Inr [Call_Render2DTree 5, Call_UpdateStart 9, Call_UploadVpRegion 9 0 5, Call_UpdateEnd 9] \<and>
   claimed_precedence ki_consts (widget (Some 5, True) None) 1 0x1000 = NodeReRender 5 False \<and>
   perform (recording False) 0 (widget (Some 5, True) None) (NodeReRender 5 False) [] =
     [Call_Render2DTree 5, Call_UpdateStart 9, Call_UploadVpRegion 9 0 5, Call_UpdateEnd 9] \<and>
   SignalViewport2D (recording False) ki_consts (KiNode2D vp_node)
       (KiNode2D (widget (Some 5, True) None)) 1 (IInt64 0x1000) [] =
     Inr [Call_Layout2DTree 5, Call_Render2DTree 5, Call_UpdateStart 9,
          Call_UploadVpRegion 9 0 5, Call_UpdateEnd 9]"
  by (simp add: claimed_precedence_def SignalViewport2D_def fullRend_of_def bindP_def
      trace_Printf_def recording_def ReRender2DNode_def upload_region_def widget_def
      vp_node_def ki_consts_def bitflag_HasMask_def Let_def)

text \<open>
  Claim C3, as amended. When the emitting node is deleted or destroyed, the classifier
  returns the state it was given: no render, no upload, no line logged or printed, for
  every signal, every payload (also one that is not an \<open>int64\<close>) and whatever the
  flags of the destination viewport are. When the emitting node is neither but is
  updating, the classifier renders and uploads nothing and writes one error line to the
  log.
\<close>

theorem SignalViewport2D_ignore:
  assumes "AsViewport2D vpgi = Some vp"
    and "IsDeleted gi \<or> IsDestroyed gi \<or> IsUpdatingAtomic gi"
  shows "SignalViewport2D ext k (KiNode2D vpgi) (KiNode2D gi) sig data s =
           Inr (if IsDeleted gi \<or> IsDestroyed gi then s
                else log_Printf ext ''ERROR SignalViewport2D updating node with Updating flag set'' s)"
  using assms by (auto simp add: SignalViewport2D_def)

theorem SignalViewport2D_ignore_witness:
  "AsViewport2D vp_node = Some 0 \<and>
   (IsDeleted ((widget (Some 5, False) None)\<lparr>IsDestroyed := True\<rparr>) \<or>
    IsDestroyed ((widget (Some 5, False) None)\<lparr>IsDestroyed := True\<rparr>) \<or>
    IsUpdatingAtomic ((widget (Some 5, False) None)\<lparr>IsDestroyed := True\<rparr>)) \<and>
   SignalViewport2D (recording True) ki_consts (KiNode2D vp_node)
       (KiNode2D ((widget (Some 5, False) None)\<lparr>IsDestroyed := True\<rparr>)) 1 (IInt64 0xF00) [] = Inr []"
proof -
  let ?gi = "(widget (Some 5, False) None)\<lparr>IsDestroyed := True\<rparr>"
  have a: "AsViewport2D vp_node = Some 0"
    by (simp add: vp_node_def)
  have b: "IsDeleted ?gi \<or> IsDestroyed ?gi \<or> IsUpdatingAtomic ?gi"
    by simp
  from SignalViewport2D_ignore [OF a b, of "recording True" ki_consts 1 "IInt64 0xF00" "[]"]
  show ?thesis using a b by simp
qed

text \<open>
  Claim C3 as stated fails in two places. A structure update from a live widget to a
  viewport that is itself destroyed is not ignored: the classifier never reads the
  viewport's flags and runs the full-tree re-render. And a signal from a node that is
  updating is not silent: an error line goes to the log.
\<close>

theorem SignalViewport2D_destroyed_viewport_renders:
  "IsDestroyed (vp_node\<lparr>IsDestroyed := True\<rparr>) \<and>
   SignalViewport2D (recording False) ki_consts (KiNode2D (vp_node\<lparr>IsDestroyed := True\<rparr>))
       (KiNode2D (widget (Some 5, False) None)) 1 (IInt64 0xF00) [] =
     Inr [Call_FullRender2DTree 0] \<and>
   IsUpdatingAtomic ((widget (Some 5, False) None)\<lparr>IsUpdatingAtomic := True\<rparr>) \<and>
   SignalViewport2D (recording False) ki_consts (KiNode2D vp_node)
       (KiNode2D ((widget (Some 5, False) None)\<lparr>IsUpdatingAtomic := True\<rparr>)) 1 (IInt64 0x1000) [] =
     Inr [Call_log_Printf ''ERROR SignalViewport2D updating node with Updating flag set'']"
  by (simp add: SignalViewport2D_def fullRend_of_def bindP_def trace_Printf_def recording_def
      widget_def vp_node_def ki_consts_def bitflag_HasMask_def Let_def)

text \<open>
  The viewport's own handler, connected by \<open>Init2D\<close>, is where the viewport's flags are
  read: when the viewport is deleted or destroyed it prints the optional trace line and
  renders nothing.
\<close>

lemma Init2D_handler_ignore:
  "IsDeleted vp \<or> IsDestroyed vp \<Longrightarrow>
   Init2D_handler ext vp rvp s =
     trace_Printf ext ''Update: Viewport2D: full render due to signal'' s"
  by (auto simp add: Init2D_handler_def Let_def)

section \<open>Theorems: keyfuns\_string.go\<close>

lemma length_offsets: "length (offsets k ns) = Suc (length ns)"
  by (induction ns arbitrary: k) auto

lemma offsets_nth: "j \<le> length ns \<Longrightarrow> offsets k ns ! j = k + length (concat (take j ns))"
proof (induction ns arbitrary: k j)
  case Nil
  then show ?case by simp
next
  case (Cons x xs)
  then show ?case by (cases j) auto
qed

lemma concat_slice:
  assumes "j < length ns"
  shows "take (length (ns ! j)) (drop (length (concat (take j ns))) (concat ns)) = ns ! j"
proof -
  have "concat ns = concat (take j ns) @ concat (drop j ns)"
    by (metis append_take_drop_id concat_append)
  moreover have "concat (drop j ns) = ns ! j @ concat (drop (Suc j) ns)"
    using assms by (simp add: Cons_nth_drop_Suc [symmetric])
  ultimately show ?thesis by simp
qed

lemma KeyFuns_name_concat: "KeyFuns_name = concat KeyFuns_names"
  by (simp add: KeyFuns_name_def KeyFuns_names_def)

lemma KeyFuns_index_offsets: "KeyFuns_index = offsets 0 KeyFuns_names"
  by (simp add: KeyFuns_index_def KeyFuns_names_def)

lemma length_KeyFuns_names: "length KeyFuns_names = 50"
  by (simp add: KeyFuns_names_def)

lemma distinct_KeyFuns_names: "distinct KeyFuns_names"
  by (simp add: KeyFuns_names_def)


lemma KeyFuns_slice_names:
  assumes "j < 50"
  shows "KeyFuns_slice (int j) = Inr (KeyFuns_names ! j)"
proof -
  have len: "length KeyFuns_index = 51"
    by (simp add: KeyFuns_index_offsets length_offsets length_KeyFuns_names)
  have lo: "KeyFuns_index ! j = length (concat (take j KeyFuns_names))"
    using assms by (simp add: KeyFuns_index_offsets offsets_nth length_KeyFuns_names)
  have hi: "KeyFuns_index ! Suc j = length (concat (take (Suc j) KeyFuns_names))"
    using assms by (simp add: KeyFuns_index_offsets offsets_nth length_KeyFuns_names)
  have step: "take (Suc j) KeyFuns_names = take j KeyFuns_names @ [KeyFuns_names ! j]"
    using assms by (simp add: take_Suc_conv_app_nth length_KeyFuns_names)
  have hi': "KeyFuns_index ! Suc j = KeyFuns_index ! j + length (KeyFuns_names ! j)"
    by (simp add: lo hi step)
  have whole: "concat KeyFuns_names =
      concat (take (Suc j) KeyFuns_names) @ concat (drop (Suc j) KeyFuns_names)"
    by (metis append_take_drop_id concat_append)
  have "length (concat KeyFuns_names) =
      length (concat (take (Suc j) KeyFuns_names)) + length (concat (drop (Suc j) KeyFuns_names))"
    using arg_cong [OF whole, of length] by simp
  then have bound: "KeyFuns_index ! Suc j \<le> length KeyFuns_name"
    by (simp add: KeyFuns_name_concat hi)
  have sl: "slice KeyFuns_name (KeyFuns_index ! j) (KeyFuns_index ! Suc j) = Inr (KeyFuns_names ! j)"
    using bound concat_slice [of j KeyFuns_names] assms
    by (simp add: slice_def hi' lo KeyFuns_name_concat length_KeyFuns_names)
  have n1: "nat (int j + 1) = Suc j" by simp
  show ?thesis
    using assms sl by (simp add: KeyFuns_slice_def index_at_def len n1)
qed

lemma FromString_loop_finds:
  assumes "i < 50"
  shows "j \<le> i \<Longrightarrow> FromString_loop j (KeyFuns_names ! i) = Inr (Some (int i))"
proof (induction "i - j" arbitrary: j)
  case 0
  then have "j = i" by simp
  then show ?case
    using assms by (subst FromString_loop.simps)
      (simp add: KeyFuns_slice_names KeyFuns_index_offsets length_offsets length_KeyFuns_names)
next
  case (Suc d)
  then have lt: "j < i" and d: "d = i - Suc j" and le: "Suc j \<le> i" by auto
  have ne: "KeyFuns_names ! i \<noteq> KeyFuns_names ! j"
    using lt assms distinct_KeyFuns_names
    by (simp add: nth_eq_iff_index_eq length_KeyFuns_names)
  have j50: "j < 50" using lt assms by simp
  have "FromString_loop j (KeyFuns_names ! i) = FromString_loop (Suc j) (KeyFuns_names ! i)"
    using j50 ne by (subst FromString_loop.simps)
      (simp add: KeyFuns_slice_names KeyFuns_index_offsets length_offsets length_KeyFuns_names)
  then show ?case using Suc.hyps(1) [OF d le] by simp
qed

text \<open>
  Claim C10. For every key-function code \<open>i\<close> with \<open>0 \<le> i < len(_KeyFuns_index) - 1\<close>,
  \<open>String\<close> returns a name, and \<open>FromString\<close> applied to that name returns a nil error
  and sets the receiver (whatever it held before) to exactly \<open>i\<close>.
\<close>

theorem KeyFuns_String_FromString:
  assumes "0 \<le> i" and "i < int (length KeyFuns_index) - 1"
  shows "\<exists>s. String i = Inr s \<and> FromString r s = Inr (i, None)"
proof -
  have len: "length KeyFuns_index = 51"
    by (simp add: KeyFuns_index_offsets length_offsets length_KeyFuns_names)
  from assms len have n: "nat i < 50" and i: "int (nat i) = i" by auto
  have s: "String i = Inr (KeyFuns_names ! nat i)"
    using assms KeyFuns_slice_names [OF n] by (simp add: String_def i)
  have "FromString_loop 0 (KeyFuns_names ! nat i) = Inr (Some (int (nat i)))"
    using FromString_loop_finds [OF n, of 0] by simp
  then have "FromString r (KeyFuns_names ! nat i) = Inr (i, None)"
    unfolding i by (simp add: FromString_def)
  with s show ?thesis by blast
qed

theorem KeyFuns_String_FromString_witness:
  "(0::int) \<le> 27 \<and> 27 < int (length KeyFuns_index) - 1 \<and>
   String 27 = Inr ''KeyFunBackspace'' \<and>
   FromString 3 ''KeyFunBackspace'' = Inr (27, None)"
proof -
  have a: "(0::int) \<le> 27" by simp
  have b: "27 < int (length KeyFuns_index) - 1" by (simp add: KeyFuns_index_def)
  have s: "String 27 = Inr (KeyFuns_names ! 27)"
    using KeyFuns_slice_names [of 27] b by (simp add: String_def)
  have v: "KeyFuns_names ! 27 = ''KeyFunBackspace''"
    by (simp add: KeyFuns_names_def)
  from KeyFuns_String_FromString [OF a b, of 3] s v show ?thesis
    using a b by auto
qed

text \<open>Outside the range \<open>String\<close> prints the number.\<close>

lemma String_out_of_range: "String 50 = Inr ''KeyFuns(50)''" "String (-7) = Inr ''KeyFuns(-7)''"
  by (simp_all add: String_def KeyFuns_index_def FormatInt10_def)

end
